theory Spec2Isabelle
  imports Complex_Main
begin

section \<open>Floating-point values\<close>

text \<open>
  The gym computes on TensorFlow tensors of floating-point numbers.  A number is modelled
  as a real or one of the three special values of IEEE arithmetic, so that the
  finiteness checks (\<^verbatim>\<open>tf.debugging.check_numerics\<close>) and the division by a
  zero-width interval in \<^verbatim>\<open>_clip_actions\<close> are branches of the model.  Arithmetic
  on finite values is exact: rounding, overflow of finite values and the sign of zero are
  outside the model.
\<close>

datatype fl = Fin real | PInf | NInf | NaN

fun is_finite :: "fl \<Rightarrow> bool" where
  "is_finite (Fin x) = True"
| "is_finite _ = False"

fun fneg :: "fl \<Rightarrow> fl" where
  "fneg (Fin x) = Fin (- x)"
| "fneg PInf = NInf"
| "fneg NInf = PInf"
| "fneg NaN = NaN"

fun fadd :: "fl \<Rightarrow> fl \<Rightarrow> fl" where
  "fadd (Fin x) (Fin y) = Fin (x + y)"
| "fadd NaN _ = NaN"
| "fadd _ NaN = NaN"
| "fadd PInf NInf = NaN"
| "fadd NInf PInf = NaN"
| "fadd PInf _ = PInf"
| "fadd _ PInf = PInf"
| "fadd NInf _ = NInf"
| "fadd _ NInf = NInf"

definition fsub :: "fl \<Rightarrow> fl \<Rightarrow> fl" where
  "fsub x y = fadd x (fneg y)"

text \<open>The sign of an infinite product; an infinity times zero is NaN.\<close>

definition inf_signed :: "bool \<Rightarrow> real \<Rightarrow> fl" where
  "inf_signed pos y = (if y = 0 then NaN else if (0 < y) = pos then PInf else NInf)"

fun fmul :: "fl \<Rightarrow> fl \<Rightarrow> fl" where
  "fmul (Fin x) (Fin y) = Fin (x * y)"
| "fmul NaN _ = NaN"
| "fmul _ NaN = NaN"
| "fmul PInf (Fin y) = inf_signed True y"
| "fmul NInf (Fin y) = inf_signed False y"
| "fmul (Fin x) PInf = inf_signed True x"
| "fmul (Fin x) NInf = inf_signed False x"
| "fmul PInf PInf = PInf"
| "fmul NInf NInf = PInf"
| "fmul PInf NInf = NInf"
| "fmul NInf PInf = NInf"

text \<open>
  Division: a finite non-zero number over zero is an infinity of its sign, zero over zero
  and infinity over infinity are NaN, a finite number over an infinity is zero.
\<close>

fun fdiv :: "fl \<Rightarrow> fl \<Rightarrow> fl" where
  "fdiv (Fin x) (Fin y) = (if y = 0 then inf_signed True x else Fin (x / y))"
| "fdiv NaN _ = NaN"
| "fdiv _ NaN = NaN"
| "fdiv (Fin x) _ = Fin 0"
| "fdiv PInf (Fin y) = (if 0 \<le> y then PInf else NInf)"
| "fdiv NInf (Fin y) = (if 0 \<le> y then NInf else PInf)"
| "fdiv _ _ = NaN"

fun fabs :: "fl \<Rightarrow> fl" where
  "fabs (Fin x) = Fin \<bar>x\<bar>"
| "fabs NaN = NaN"
| "fabs _ = PInf"

text \<open>Comparisons: every comparison with NaN is false.\<close>

fun fle :: "fl \<Rightarrow> fl \<Rightarrow> bool" where
  "fle NaN _ = False"
| "fle _ NaN = False"
| "fle (Fin x) (Fin y) = (x \<le> y)"
| "fle NInf _ = True"
| "fle _ PInf = True"
| "fle _ _ = False"

definition flt :: "fl \<Rightarrow> fl \<Rightarrow> bool" where
  "flt x y = (fle x y \<and> x \<noteq> y)"

definition fge :: "fl \<Rightarrow> fl \<Rightarrow> bool" where
  "fge x y = fle y x"

definition fgt :: "fl \<Rightarrow> fl \<Rightarrow> bool" where
  "fgt x y = flt y x"

text \<open>
  \<^verbatim>\<open>tf.minimum\<close> and \<^verbatim>\<open>tf.maximum\<close>: the smaller (larger) operand; a NaN
  operand gives NaN, as TensorFlow's kernels propagate it.
\<close>

definition fminimum :: "fl \<Rightarrow> fl \<Rightarrow> fl" where
  "fminimum x y = (if x = NaN \<or> y = NaN then NaN else if fle x y then x else y)"

definition fmaximum :: "fl \<Rightarrow> fl \<Rightarrow> fl" where
  "fmaximum x y = (if x = NaN \<or> y = NaN then NaN else if fle x y then y else x)"

primrec fsum :: "fl list \<Rightarrow> fl" where
  "fsum [] = Fin 0"
| "fsum (x # xs) = fadd x (fsum xs)"

subsection \<open>The soft clip\<close>

text \<open>
  \<^verbatim>\<open>tfp.bijectors.SoftClip(low=0., high=1., hinge_softness=c)\<close> is the library's
  map \<open>x \<mapsto> high - softplus (width - softplus (x - low)) * (width / softplus width)\<close>
  with \<open>width = high - low\<close> and \<open>softplus x = c * ln (1 + exp (x / c))\<close>.  At
  the infinities it takes its limits 1 and 0.
\<close>

definition softplus :: "real \<Rightarrow> real \<Rightarrow> real" where
  "softplus c x = c * ln (1 + exp (x / c))"

definition softclip_real :: "real \<Rightarrow> real \<Rightarrow> real" where
  "softclip_real c x = 1 - softplus c (1 - softplus c x) * (1 / softplus c 1)"

fun softclip :: "real \<Rightarrow> fl \<Rightarrow> fl" where
  "softclip c (Fin x) = Fin (softclip_real c x)"
| "softclip c PInf = Fin 1"
| "softclip c NInf = Fin 0"
| "softclip c NaN = NaN"

section \<open>Tensors\<close>

text \<open>
  A tensor is its static shape and its entries in row-major order.  A well-formed tensor
  has as many entries as its shape says.
\<close>

record tensor =
  shape :: "nat list"
  vals :: "fl list"

definition wf_tensor :: "tensor \<Rightarrow> bool" where
  "wf_tensor x = (length (vals x) = prod_list (shape x))"

text \<open>The faults of a forward evaluation; none is caught inside the gym.\<close>

datatype error =
    ShapeMismatch string
  | FeatureShapeMismatch string
  | BoundsViolation string
  | NumericalError string
  | AssertionError string
  | TypeError string
  | AttributeError string
  | IndexOutOfRange
  | IncompatibleShapes

definition ebind :: "error + 'a \<Rightarrow> ('a \<Rightarrow> error + 'b) \<Rightarrow> error + 'b" where
  "ebind m f = (case m of Inl e \<Rightarrow> Inl e | Inr v \<Rightarrow> f v)"

fun emap :: "('a \<Rightarrow> error + 'b) \<Rightarrow> 'a list \<Rightarrow> error + 'b list" where
  "emap f [] = Inr []"
| "emap f (x # xs) = ebind (f x) (\<lambda>y. ebind (emap f xs) (\<lambda>ys. Inr (y # ys)))"

subsection \<open>Broadcasting\<close>

text \<open>
  Two shapes are aligned at their last axes; along an axis the sizes must agree or one of
  them is 1, and the axis of size 1 is repeated.
\<close>

definition lpad :: "nat \<Rightarrow> nat list \<Rightarrow> nat list" where
  "lpad r s = replicate (r - length s) 1 @ s"

fun bdims :: "nat list \<Rightarrow> nat list \<Rightarrow> nat list option" where
  "bdims [] [] = Some []"
| "bdims (a # as) (b # bs) =
     (if a = b \<or> b = 1 then map_option ((#) a) (bdims as bs)
      else if a = 1 then map_option ((#) b) (bdims as bs)
      else None)"
| "bdims _ _ = None"

definition bshape :: "nat list \<Rightarrow> nat list \<Rightarrow> nat list option" where
  "bshape s1 s2 = (let r = max (length s1) (length s2) in bdims (lpad r s1) (lpad r s2))"

fun bvals :: "nat list \<Rightarrow> nat list \<Rightarrow> 'a list \<Rightarrow> 'a list" where
  "bvals (s # ss) (d # ds) vs =
     (if s # ss = d # ds then vs
      else if s = d then
        concat (map (\<lambda>i. bvals ss ds (take (prod_list ss) (drop (i * prod_list ss) vs))) [0..<d])
      else concat (replicate d (bvals ss ds vs)))"
| "bvals _ _ vs = vs"

definition broadcast_to :: "nat list \<Rightarrow> tensor \<Rightarrow> tensor" where
  "broadcast_to d x = \<lparr>shape = d, vals = bvals (lpad (length d) (shape x)) d (vals x)\<rparr>"

definition tbin :: "(fl \<Rightarrow> fl \<Rightarrow> fl) \<Rightarrow> tensor \<Rightarrow> tensor \<Rightarrow> error + tensor" where
  "tbin f x y =
     (case bshape (shape x) (shape y) of
        None \<Rightarrow> Inl IncompatibleShapes
      | Some d \<Rightarrow>
          Inr \<lparr>shape = d,
               vals = map2 f (vals (broadcast_to d x)) (vals (broadcast_to d y))\<rparr>)"

definition tmap :: "(fl \<Rightarrow> fl) \<Rightarrow> tensor \<Rightarrow> tensor" where
  "tmap f x = \<lparr>shape = shape x, vals = map f (vals x)\<rparr>"

definition zeros_like :: "tensor \<Rightarrow> tensor" where
  "zeros_like x = \<lparr>shape = shape x, vals = replicate (prod_list (shape x)) (Fin 0)\<rparr>"

subsection \<open>Slices, new axes, concatenation, reduction\<close>

text \<open>\<^verbatim>\<open>x[:,t,:]\<close> on a tensor of rank 3; an index past the axis is an error.\<close>

definition slice_step :: "tensor \<Rightarrow> nat \<Rightarrow> error + tensor" where
  "slice_step x t =
     (case shape x of
        [b, m, n] \<Rightarrow>
          if t < m then
            Inr \<lparr>shape = [b, n],
                 vals = concat (map (\<lambda>i. take n (drop ((i * m + t) * n) (vals x))) [0..<b])\<rparr>
          else Inl IndexOutOfRange
      | _ \<Rightarrow> Inl IndexOutOfRange)"

text \<open>\<^verbatim>\<open>x[:,0]\<close> on a tensor of rank 2.\<close>

definition slice_col0 :: "tensor \<Rightarrow> error + tensor" where
  "slice_col0 x =
     (case shape x of
        [b, n] \<Rightarrow>
          if 0 < n then Inr \<lparr>shape = [b], vals = concat (map (\<lambda>i. take 1 (drop (i * n) (vals x))) [0..<b])\<rparr>
          else Inl IndexOutOfRange
      | _ \<Rightarrow> Inl IndexOutOfRange)"

text \<open>\<^verbatim>\<open>x[:,tf.newaxis,:]\<close> on rank 2, \<^verbatim>\<open>x[:,tf.newaxis]\<close> on rank 1,
  \<^verbatim>\<open>x[tf.newaxis,:]\<close> on rank at least 1.\<close>

definition newaxis_mid :: "tensor \<Rightarrow> error + tensor" where
  "newaxis_mid x =
     (case shape x of [b, n] \<Rightarrow> Inr \<lparr>shape = [b, 1, n], vals = vals x\<rparr> | _ \<Rightarrow> Inl IndexOutOfRange)"

definition newaxis_last :: "tensor \<Rightarrow> error + tensor" where
  "newaxis_last x =
     (case shape x of [b] \<Rightarrow> Inr \<lparr>shape = [b, 1], vals = vals x\<rparr> | _ \<Rightarrow> Inl IndexOutOfRange)"

definition newaxis_first :: "tensor \<Rightarrow> error + tensor" where
  "newaxis_first x =
     (case shape x of [] \<Rightarrow> Inl IndexOutOfRange | s \<Rightarrow> Inr \<lparr>shape = 1 # s, vals = vals x\<rparr>)"

text \<open>\<^verbatim>\<open>tf.concat([x, y], axis=1)\<close> on tensors of rank 3.\<close>

definition concat_axis1 :: "tensor \<Rightarrow> tensor \<Rightarrow> error + tensor" where
  "concat_axis1 x y =
     (case (shape x, shape y) of
        ([b, m, n], [b', k, n']) \<Rightarrow>
          if b = b' \<and> n = n' then
            Inr \<lparr>shape = [b, m + k, n],
                 vals = concat (map (\<lambda>i. take (m * n) (drop (i * (m * n)) (vals x)) @
                                          take (k * n) (drop (i * (k * n)) (vals y))) [0..<b])\<rparr>
          else Inl IncompatibleShapes
      | _ \<Rightarrow> Inl IncompatibleShapes)"

text \<open>\<^verbatim>\<open>tf.reduce_sum(x, axis=1)\<close> on a tensor of rank 2.\<close>

definition reduce_sum_axis1 :: "tensor \<Rightarrow> error + tensor" where
  "reduce_sum_axis1 x =
     (case shape x of
        [b, n] \<Rightarrow> Inr \<lparr>shape = [b], vals = map (\<lambda>i. fsum (take n (drop (i * n) (vals x)))) [0..<b]\<rparr>
      | _ \<Rightarrow> Inl IndexOutOfRange)"

text \<open>\<^verbatim>\<open>tf.debugging.check_numerics\<close>: a NaN or an infinity anywhere is a fault.\<close>

definition check_numerics :: "tensor \<Rightarrow> string \<Rightarrow> error + tensor" where
  "check_numerics x msg = (if list_all is_finite (vals x) then Inr x else Inl (NumericalError msg))"

text \<open>\<^verbatim>\<open>tf.debugging.assert_greater_equal\<close> and \<^verbatim>\<open>assert_less_equal\<close>, against
  a tensor and against the scalar 0.\<close>

definition assert_greater_equal :: "tensor \<Rightarrow> tensor \<Rightarrow> string \<Rightarrow> error + unit" where
  "assert_greater_equal x y msg =
     (case bshape (shape x) (shape y) of
        None \<Rightarrow> Inl IncompatibleShapes
      | Some d \<Rightarrow>
          if list_all (\<lambda>(a, b). fge a b) (zip (vals (broadcast_to d x)) (vals (broadcast_to d y)))
          then Inr () else Inl (BoundsViolation msg))"

definition assert_greater_equal0 :: "tensor \<Rightarrow> string \<Rightarrow> error + unit" where
  "assert_greater_equal0 x msg =
     (if list_all (\<lambda>a. fge a (Fin 0)) (vals x) then Inr () else Inl (BoundsViolation msg))"

definition assert_less_equal0 :: "tensor \<Rightarrow> string \<Rightarrow> error + unit" where
  "assert_less_equal0 x msg =
     (if list_all (\<lambda>a. fle a (Fin 0)) (vals x) then Inr () else Inl (BoundsViolation msg))"

section \<open>The gym and its collaborators\<close>

text \<open>
  The agent and the monetary utility are external: the gym uses an agent through
  \<^verbatim>\<open>is_recurrent\<close>, \<^verbatim>\<open>state_feature_name\<close>, \<^verbatim>\<open>init_state\<close> and its call
  (features in; action and new state out), and a utility through its call.
\<close>

type_synonym feature_map = "string \<rightharpoonup> tensor"

record agent_model =
  is_recurrent :: bool
  state_feature_name :: string
  init_state :: "bool \<Rightarrow> tensor"
  policy :: "feature_map \<Rightarrow> bool \<Rightarrow> tensor \<times> tensor"

record utility_data =
  u_features_time_0 :: feature_map
  u_payoff :: tensor
  u_pnl :: tensor
  u_cost :: tensor

type_synonym utility_model = "utility_data \<Rightarrow> bool \<Rightarrow> tensor"

text \<open>
  \<^verbatim>\<open>VanillaDeepHedgingGym\<close>: the fields \<^verbatim>\<open>__init__\<close> reads from the configuration
  (\<open>hinge_softness\<close> is the parameter of \<^verbatim>\<open>self.softclip\<close>) and the three
  collaborators, \<open>None\<close> until \<^verbatim>\<open>build\<close>.
\<close>

record ('ca, 'co) gym =
  hard_clip :: bool
  outer_clip :: bool
  outer_clip_cut_off :: real
  hinge_softness :: real
  config_agent :: 'ca
  config_objective :: 'co
  agent :: "agent_model option"
  utility :: "utility_model option"
  utility0 :: "utility_model option"

record market =
  hedges :: tensor
  cost :: tensor
  ubnd_a :: tensor
  lbnd_a :: tensor
  payoff :: tensor

text \<open>The input dictionary; an absent \<^verbatim>\<open>features\<close> entry is two empty dictionaries.\<close>

record data =
  market :: market
  per_step :: "(string \<times> tensor) list"
  per_path :: "(string \<times> tensor) list"

record rollout_state =
  s_pnl :: tensor
  s_cost :: tensor
  s_delta :: tensor
  s_action :: tensor
  s_actions :: tensor
  s_state :: tensor

record result =
  r_loss :: tensor
  r_utility :: tensor
  r_utility0 :: tensor
  r_gains :: tensor
  r_payoff :: tensor
  r_pnl :: tensor
  r_cost :: tensor
  r_actions :: tensor

subsection \<open>build\<close>

text \<open>
  \<^verbatim>\<open>AgentFactory\<close> and \<^verbatim>\<open>MonetaryUtility\<close> are the constructors of the external
  modules; \<^verbatim>\<open>build\<close> calls the second twice, under the names \<^verbatim>\<open>utility\<close> and
  \<^verbatim>\<open>utility0\<close>.
\<close>

definition build ::
  "(nat \<Rightarrow> 'ca \<Rightarrow> agent_model) \<Rightarrow> ('co \<Rightarrow> string \<Rightarrow> utility_model) \<Rightarrow>
   ('ca, 'co) gym \<Rightarrow> nat list \<Rightarrow> error + ('ca, 'co) gym" where
  "build AgentFactory MonetaryUtility g hedges_shape =
     (if agent g \<noteq> None then Inl (AssertionError ''build() called twice?'')
      else case drop 2 hedges_shape of
        [] \<Rightarrow> Inl IndexOutOfRange
      | nInst # _ \<Rightarrow>
          Inr (g\<lparr>agent := Some (AgentFactory nInst (config_agent g)),
                 utility := Some (MonetaryUtility (config_objective g) ''utility''),
                 utility0 := Some (MonetaryUtility (config_objective g) ''utility0'')\<rparr>))"

subsection \<open>The bounded action transform\<close>

text \<open>
  \<^verbatim>\<open>_clip_actions\<close>.  The three assertions guard both modes; the hard clip returns at
  once; the soft clip ends in \<^verbatim>\<open>check_numerics\<close>.  \<^verbatim>\<open>tf.where(dbnd > 0., x, 0.)\<close>
  is the entrywise choice \<open>where_positive\<close>.
\<close>

definition where_positive :: "tensor \<Rightarrow> tensor \<Rightarrow> error + tensor" where
  "where_positive dbnd x = tbin (\<lambda>d v. if fgt d (Fin 0) then v else Fin 0) dbnd x"

definition clip_actions ::
  "('ca, 'co) gym \<Rightarrow> tensor \<Rightarrow> tensor \<Rightarrow> tensor \<Rightarrow> error + tensor" where
  "clip_actions g actions lbnd ubnd =
     ebind (assert_greater_equal ubnd lbnd ''Upper bound for actions must be bigger than lower bound'') (\<lambda>_.
     ebind (assert_greater_equal0 ubnd ''Upper bound for actions must not be negative'') (\<lambda>_.
     ebind (assert_less_equal0 lbnd ''Lower bound for actions must not be positive'') (\<lambda>_.
     if hard_clip g then
       ebind (tbin fminimum actions ubnd) (\<lambda>actions.
       tbin fmaximum actions lbnd)
     else
       ebind (if outer_clip g then
                ebind (tbin fminimum actions (tmap (\<lambda>u. fmul u (Fin (outer_clip_cut_off g))) ubnd)) (\<lambda>actions.
                tbin fmaximum actions (tmap (\<lambda>l. fmul l (Fin (outer_clip_cut_off g))) lbnd))
              else Inr actions) (\<lambda>actions.
       ebind (tbin fsub ubnd lbnd) (\<lambda>dbnd.
       ebind (tbin fsub actions lbnd) (\<lambda>num.
       ebind (tbin fdiv num dbnd) (\<lambda>rel.
       ebind (tbin fmul (tmap (softclip (hinge_softness g)) rel) dbnd) (\<lambda>scaled.
       ebind (tbin fadd scaled lbnd) (\<lambda>shifted.
       ebind (where_positive dbnd shifted) (\<lambda>act.
       check_numerics act ''Numerical error clipping action''))))))))))"

text \<open>
  What the transform computes at one entry, from the raw action \<open>a\<close> and the bounds
  \<open>l\<close> and \<open>u\<close> there: the hard clip, and the soft clip with its outer guard
  (\<open>oc\<close>, cut-off \<open>k\<close>) and hinge softness \<open>c\<close>.
\<close>

definition hard_clip1 :: "fl \<Rightarrow> fl \<Rightarrow> fl \<Rightarrow> fl" where
  "hard_clip1 a l u = fmaximum (fminimum a u) l"

definition soft_clip1 :: "bool \<Rightarrow> real \<Rightarrow> real \<Rightarrow> fl \<Rightarrow> fl \<Rightarrow> fl \<Rightarrow> fl" where
  "soft_clip1 oc k c a l u =
     (let a' = (if oc then fmaximum (fminimum a (fmul u (Fin k))) (fmul l (Fin k)) else a);
          d = fsub u l
      in if fgt d (Fin 0) then fadd (fmul (softclip c (fdiv (fsub a' l) d)) d) l else Fin 0)"

subsection \<open>The feature assembler\<close>

text \<open>
  Modelled from the spec: \<^verbatim>\<open>tf_make_dim\<close> of the module \<^verbatim>\<open>base\<close>, which is not
  among the sources.  It brings a tensor to the rank asked for: a tensor of lower rank
  gets trailing axes of size 1, a tensor of higher rank has its trailing axes merged.
  It reads \<^verbatim>\<open>tensor.shape\<close>, which a Python string does not have.
\<close>

datatype pyobj = PyStr string | PyTensor tensor

definition tf_make_dim :: "pyobj \<Rightarrow> nat \<Rightarrow> error + tensor" where
  "tf_make_dim obj ndim =
     (case obj of
        PyStr _ \<Rightarrow> Inl (AttributeError ''shape'')
      | PyTensor x \<Rightarrow>
          Inr (if length (shape x) < ndim
               then \<lparr>shape = shape x @ replicate (ndim - length (shape x)) 1, vals = vals x\<rparr>
               else \<lparr>shape = take (ndim - 1) (shape x) @ [prod_list (drop (ndim - 1) (shape x))],
                     vals = vals x\<rparr>))"

definition per_step_feature :: "nat \<Rightarrow> string \<times> tensor \<Rightarrow> error + string \<times> tensor" where
  "per_step_feature nSteps kv =
     (case kv of (f, feature) \<Rightarrow>
        if \<not> 2 \<le> length (shape feature) then Inl (FeatureShapeMismatch f)
        else if shape feature ! 1 \<noteq> nSteps then Inl (FeatureShapeMismatch f)
        else ebind (tf_make_dim (PyTensor feature) 3) (\<lambda>x. Inr (f, x)))"

text \<open>
  \<^verbatim>\<open>_features\<close>.  The per-step features are collected into a dictionary, key by
  key.  For the per-path features the source writes a set comprehension over the
  dictionary \<^verbatim>\<open>features_per_path_i\<close>: it iterates over the keys, applies
  \<^verbatim>\<open>tf_make_dim\<close> to each key, and collects the results in a set (here the list of its
  elements).
\<close>

definition features ::
  "data \<Rightarrow> nat \<Rightarrow> error + (string \<times> tensor) list \<times> tensor list" where
  "features d nSteps =
     ebind (emap (per_step_feature nSteps) (per_step d)) (\<lambda>features_per_step.
     ebind (emap (\<lambda>k. tf_make_dim (PyStr k) 2) (map fst (per_path d))) (\<lambda>features_per_path.
     Inr (features_per_step, features_per_path)))"

text \<open>
  \<^verbatim>\<open>{ f:features_per_path[f] for f in features_per_path }\<close>: the value is a set, and
  subscripting a set is a type error; over the empty set nothing is subscripted.
\<close>

definition path_features :: "tensor list \<Rightarrow> error + (string \<times> tensor) list" where
  "path_features features_per_path =
     (case features_per_path of
        [] \<Rightarrow> Inr []
      | _ \<Rightarrow> Inl (TypeError ''set object is not subscriptable''))"

definition step_features :: "(string \<times> tensor) list \<Rightarrow> nat \<Rightarrow> error + (string \<times> tensor) list" where
  "step_features features_per_step t =
     emap (\<lambda>kv. ebind (slice_step (snd kv) t) (\<lambda>x. Inr (fst kv, x))) features_per_step"

definition dict_update :: "feature_map \<Rightarrow> (string \<times> tensor) list \<Rightarrow> feature_map" where
  "dict_update m kvs = foldl (\<lambda>m kv. m(fst kv \<mapsto> snd kv)) m kvs"

definition live_features ::
  "agent_model \<Rightarrow> (string \<times> tensor) list \<Rightarrow> tensor list \<Rightarrow> nat \<Rightarrow> rollout_state \<Rightarrow>
   error + feature_map" where
  "live_features ag features_per_step features_per_path t st =
     (let lf = [''action'' \<mapsto> s_action st, ''delta'' \<mapsto> s_delta st,
                ''cost'' \<mapsto> s_cost st, ''pnl'' \<mapsto> s_pnl st] in
      ebind (path_features features_per_path) (\<lambda>pp.
      ebind (step_features features_per_step t) (\<lambda>ps.
      let lf = (dict_update (dict_update lf pp) ps)(''delta'' \<mapsto> s_delta st, ''action'' \<mapsto> s_action st)
      in Inr (if is_recurrent ag then lf(state_feature_name ag \<mapsto> s_state st) else lf))))"

definition features_time_0 ::
  "(string \<times> tensor) list \<Rightarrow> tensor list \<Rightarrow> error + feature_map" where
  "features_time_0 features_per_step features_per_path =
     ebind (path_features features_per_path) (\<lambda>pp.
     ebind (step_features features_per_step 0) (\<lambda>ps.
     Inr (dict_update (dict_update Map.empty pp) ps)))"

subsection \<open>The rollout\<close>

text \<open>
  One pass through the body of the main loop of \<^verbatim>\<open>_call\<close>, at step \<open>t\<close>, in the
  source's four parts: the live features and the clipped action with the new recurrent
  state; the record of the action; the trade; and the new rollout state.
\<close>

definition choose_action ::
  "('ca, 'co) gym \<Rightarrow> agent_model \<Rightarrow> bool \<Rightarrow> market \<Rightarrow> (string \<times> tensor) list \<Rightarrow> tensor list \<Rightarrow>
   nat \<Rightarrow> nat \<Rightarrow> nat \<Rightarrow> rollout_state \<Rightarrow> error + tensor \<times> tensor" where
  "choose_action g ag training mkt features_per_step features_per_path nBatch nInst t st =
     ebind (live_features ag features_per_step features_per_path t st) (\<lambda>lf.
     case policy ag lf training of (action, state') \<Rightarrow>
     if shape action \<noteq> [nBatch, nInst] \<and> shape action \<noteq> [1, nInst]
     then Inl (ShapeMismatch ''action'')
     else
     ebind (if length (shape action) = 2 then Inr action else newaxis_first action) (\<lambda>action.
     ebind (slice_step (lbnd_a mkt) t) (\<lambda>lbnd.
     ebind (slice_step (ubnd_a mkt) t) (\<lambda>ubnd.
     ebind (clip_actions g action lbnd ubnd) (\<lambda>action.
     Inr (action, if is_recurrent ag then state' else s_state st))))))"

definition record_action :: "nat \<Rightarrow> tensor \<Rightarrow> tensor \<Rightarrow> error + tensor" where
  "record_action t actions action =
     ebind (newaxis_mid action) (\<lambda>action'.
     if 0 < t then concat_axis1 actions action' else Inr action')"

definition trade :: "market \<Rightarrow> nat \<Rightarrow> tensor \<Rightarrow> tensor \<Rightarrow> tensor \<Rightarrow> error + tensor \<times> tensor" where
  "trade mkt t action cost0 pnl0 =
     ebind (slice_step (cost mkt) t) (\<lambda>trading_cost.
     ebind (tbin fmul (tmap fabs action) trading_cost) (\<lambda>cost_n.
     ebind (reduce_sum_axis1 cost_n) (\<lambda>cost_t.
     ebind (tbin fadd cost0 cost_t) (\<lambda>cost'.
     ebind (slice_step (hedges mkt) t) (\<lambda>hedges_t.
     ebind (tbin fmul action hedges_t) (\<lambda>pnl_n.
     ebind (reduce_sum_axis1 pnl_n) (\<lambda>pnl_t.
     ebind (tbin fadd pnl0 pnl_t) (\<lambda>pnl'.
     Inr (cost', pnl')))))))))"

definition step ::
  "('ca, 'co) gym \<Rightarrow> agent_model \<Rightarrow> bool \<Rightarrow> market \<Rightarrow> (string \<times> tensor) list \<Rightarrow> tensor list \<Rightarrow>
   nat \<Rightarrow> nat \<Rightarrow> nat \<Rightarrow> rollout_state \<Rightarrow> error + rollout_state" where
  "step g ag training mkt features_per_step features_per_path nBatch nInst t st =
     ebind (choose_action g ag training mkt features_per_step features_per_path nBatch nInst t st) (\<lambda>as.
     ebind (tbin fadd (s_delta st) (fst as)) (\<lambda>delta.
     ebind (record_action t (s_actions st) (fst as)) (\<lambda>actions.
     ebind (trade mkt t (fst as) (s_cost st) (s_pnl st)) (\<lambda>cp.
     Inr \<lparr>s_pnl = snd cp, s_cost = fst cp, s_delta = delta, s_action = fst as,
          s_actions = actions, s_state = snd as\<rparr>))))"

function main_loop ::
  "('ca, 'co) gym \<Rightarrow> agent_model \<Rightarrow> bool \<Rightarrow> market \<Rightarrow> (string \<times> tensor) list \<Rightarrow> tensor list \<Rightarrow>
   nat \<Rightarrow> nat \<Rightarrow> nat \<Rightarrow> nat \<Rightarrow> rollout_state \<Rightarrow> error + rollout_state" where
  "main_loop g ag training mkt fps fpp nBatch nSteps nInst t st =
     (if t < nSteps then
        ebind (step g ag training mkt fps fpp nBatch nInst t st) (\<lambda>st'.
        main_loop g ag training mkt fps fpp nBatch nSteps nInst (t + 1) st')
      else Inr st)"
  by pat_completeness auto
termination
  by (relation "measure (\<lambda>(g, ag, training, mkt, fps, fpp, nBatch, nSteps, nInst, t, st). nSteps - t)")
    auto

declare main_loop.simps [simp del]

text \<open>The recurrent state before the first step, tiled over the batch.\<close>

definition initial_state :: "agent_model \<Rightarrow> bool \<Rightarrow> tensor \<Rightarrow> error + tensor" where
  "initial_state ag training pnl =
     (if is_recurrent ag then
        ebind (newaxis_last pnl) (\<lambda>p.
        ebind (newaxis_first (init_state ag training)) (\<lambda>s.
        tbin fadd (tmap (\<lambda>v. fmul v (Fin 0)) p) s))
      else Inr (zeros_like pnl))"

text \<open>\<^verbatim>\<open>_call\<close>, the traced body of \<^verbatim>\<open>call\<close>.  Shapes are the concrete ones of
  the batch.\<close>

definition call_body :: "('ca, 'co) gym \<Rightarrow> data \<Rightarrow> bool \<Rightarrow> error + result" where
  "call_body g d training =
     (case (agent g, utility g) of
        (Some ag, Some ut) \<Rightarrow>
          (case shape (hedges (market d)) of
             [nBatch, nSteps, nInst] \<Rightarrow>
               let trading_cost = cost (market d);
                   ubnd = ubnd_a (market d);
                   lbnd = lbnd_a (market d);
                   payoff0 = payoff (market d)
               in
               ebind (if shape payoff0 = [nBatch, 1] then slice_col0 payoff0 else Inr payoff0) (\<lambda>payoff.
               if shape trading_cost \<noteq> [nBatch, nSteps, nInst] then Inl (ShapeMismatch ''cost'')
               else if shape ubnd \<noteq> [nBatch, nSteps, nInst] then Inl (ShapeMismatch ''ubnd_a'')
               else if shape lbnd \<noteq> [nBatch, nSteps, nInst] then Inl (ShapeMismatch ''lbnd_a'')
               else if shape payoff \<noteq> [nBatch] then Inl (ShapeMismatch ''payoff'')
               else
               ebind (features d nSteps) (\<lambda>fs.
               case fs of (features_per_step, features_per_path) \<Rightarrow>
               let pnl = zeros_like payoff;
                   cost0 = zeros_like payoff
               in
               ebind (slice_step trading_cost 0) (\<lambda>tc0.
               let delta = zeros_like tc0;
                   action = zeros_like tc0
               in
               ebind (newaxis_mid tc0) (\<lambda>tc0'.
               let actions = zeros_like tc0' in
               ebind (initial_state ag training pnl) (\<lambda>state.
               ebind (main_loop g ag training (market d) features_per_step features_per_path
                        nBatch nSteps nInst 0
                        \<lparr>s_pnl = pnl, s_cost = cost0, s_delta = delta, s_action = action,
                         s_actions = actions, s_state = state\<rparr>) (\<lambda>st.
               ebind (check_numerics (s_pnl st) ''Numerical error computing pnl'') (\<lambda>pnl.
               ebind (check_numerics (s_cost st) ''Numerical error computing cost'') (\<lambda>cost1.
               ebind (features_time_0 features_per_step features_per_path) (\<lambda>f0.
               let u = ut \<lparr>u_features_time_0 = f0, u_payoff = payoff, u_pnl = pnl, u_cost = cost1\<rparr> training in
               case utility0 g of
                 None \<Rightarrow> Inl (TypeError ''NoneType object is not callable'')
               | Some ut0 \<Rightarrow>
                   let u0 = ut0 \<lparr>u_features_time_0 = f0, u_payoff = payoff,
                                 u_pnl = tmap (\<lambda>v. fmul v (Fin 0)) pnl,
                                 u_cost = tmap (\<lambda>v. fmul v (Fin 0)) cost1\<rparr> training in
                   ebind (tbin fsub (tmap fneg u) u0) (\<lambda>loss.
                   ebind (tbin fadd payoff pnl) (\<lambda>pp.
                   ebind (tbin fsub pp cost1) (\<lambda>gains.
                   Inr \<lparr>r_loss = loss, r_utility = u, r_utility0 = u0, r_gains = gains,
                        r_payoff = payoff, r_pnl = pnl, r_cost = cost1,
                        r_actions = s_actions st\<rparr>))))))))))))
           | _ \<Rightarrow> Inl (ShapeMismatch ''hedges''))
      | _ \<Rightarrow> Inl (AssertionError ''build() not called''))"

text \<open>\<^verbatim>\<open>call\<close> casts the data to tensors (\<^verbatim>\<open>tfCast\<close>, the identity on tensors) and
  runs the traced body.\<close>

definition call :: "('ca, 'co) gym \<Rightarrow> data \<Rightarrow> bool \<Rightarrow> error + result" where
  "call g d training = call_body g d training"


subsection \<open>Example inputs\<close>

text \<open>
  The gym as \<^verbatim>\<open>__init__\<close> leaves it under the default configuration (soft clip,
  outer clip at 10 times the bounds, hinge softness 1), the same gym in the hard-clip mode,
  and the tensor of shape \<open>[1, 1]\<close> with one entry.
\<close>

definition default_gym :: "(unit, unit) gym" where
  "default_gym = \<lparr>hard_clip = False, outer_clip = True, outer_clip_cut_off = 10, hinge_softness = 1,
     config_agent = (), config_objective = (), agent = None, utility = None, utility0 = None\<rparr>"
definition debug_gym :: "(unit, unit) gym" where
  "debug_gym = default_gym\<lparr>hard_clip := True\<rparr>"
definition row1 :: "fl \<Rightarrow> tensor" where
  "row1 v = \<lparr>shape = [1, 1], vals = [v]\<rparr>"

definition vec1 :: "fl \<Rightarrow> tensor" where
  "vec1 v = \<lparr>shape = [1], vals = [v]\<rparr>"

text \<open>
  A batch of one path, one step and one instrument; an agent that is not recurrent and
  returns the same raw action at every step; a utility that returns the gains
  \<open>payoff + pnl - cost\<close> of each path; a gym with these collaborators in place.
\<close>

definition const_agent :: "tensor \<Rightarrow> agent_model" where
  "const_agent a = \<lparr>is_recurrent = False, state_feature_name = ''state'',
     init_state = (\<lambda>_. \<lparr>shape = [1], vals = [Fin 0]\<rparr>),
     policy = (\<lambda>_ _. (a, \<lparr>shape = [1], vals = [Fin 0]\<rparr>))\<rparr>"
definition gains_utility :: utility_model where
  "gains_utility ud training =
     \<lparr>shape = shape (u_payoff ud),
      vals = map (\<lambda>(p, q, c). fsub (fadd p q) c) (zip (vals (u_payoff ud)) (zip (vals (u_pnl ud)) (vals (u_cost ud))))\<rparr>"
definition cube1 :: "fl \<Rightarrow> tensor" where
  "cube1 v = \<lparr>shape = [1, 1, 1], vals = [v]\<rparr>"
definition market1 :: "fl \<Rightarrow> fl \<Rightarrow> fl \<Rightarrow> fl \<Rightarrow> tensor \<Rightarrow> market" where
  "market1 h c l u p = \<lparr>hedges = cube1 h, cost = cube1 c, ubnd_a = cube1 u, lbnd_a = cube1 l, payoff = p\<rparr>"
definition data1 :: "fl \<Rightarrow> fl \<Rightarrow> fl \<Rightarrow> fl \<Rightarrow> tensor \<Rightarrow> data" where
  "data1 h c l u p = \<lparr>market = market1 h c l u p, per_step = [], per_path = []\<rparr>"
definition built_gym :: "(unit, unit) gym \<Rightarrow> tensor \<Rightarrow> (unit, unit) gym" where
  "built_gym g a = g\<lparr>agent := Some (const_agent a), utility := Some gains_utility, utility0 := Some gains_utility\<rparr>"




subsection \<open>The agent that broadcasts\<close>


subsection \<open>Invariants of the rollout\<close>

text \<open>
  The shapes the running aggregates keep from step to step: before step \<open>t\<close> the
  cumulative P&L and cost are vectors over the batch, and the recorded history has
  \<open>t\<close> entries along its second axis.
\<close>

definition rollout_shapes :: "nat \<Rightarrow> nat \<Rightarrow> nat \<Rightarrow> rollout_state \<Rightarrow> bool" where
  "rollout_shapes B N t st =
     (shape (s_pnl st) = [B] \<and> length (vals (s_pnl st)) = B \<and>
      shape (s_cost st) = [B] \<and> length (vals (s_cost st)) = B \<and>
      (0 < t \<longrightarrow> shape (s_actions st) = [B, t, N]))"

section \<open>Basic facts\<close>

subsection \<open>Errors, broadcasting, entrywise clipping\<close>

lemma ebind_Inr [simp]: "ebind (Inr v) f = f v" by (simp add: ebind_def)
lemma ebind_Inl [simp]: "ebind (Inl e) f = Inl e" by (simp add: ebind_def)
lemma ebind_eq_Inr: "ebind m f = Inr r \<longleftrightarrow> (\<exists>v. m = Inr v \<and> f v = Inr r)"
  by (cases m) auto
lemma ebind_eq_Inl: "ebind m f = Inl e \<longleftrightarrow> m = Inl e \<or> (\<exists>v. m = Inr v \<and> f v = Inl e)"
  by (cases m) auto

lemma tensor_eq: "shape x = shape y \<Longrightarrow> vals x = vals y \<Longrightarrow> (x::tensor) = y"
  by simp

lemma bdims_same: "bdims s s = Some s"
  by (induction s) auto
lemma lpad_same [simp]: "lpad (length s) s = s" by (simp add: lpad_def)
lemma bshape_same: "bshape s s = Some s"
  by (simp add: bshape_def bdims_same)
lemma bvals_same: "bvals s s vs = vs"
  by (cases s) auto
lemma broadcast_to_same: "shape x = s \<Longrightarrow> broadcast_to s x = x"
  by (simp add: broadcast_to_def bvals_same)
lemma tbin_same:
  "shape x = shape y \<Longrightarrow> tbin f x y = Inr \<lparr>shape = shape y, vals = map2 f (vals x) (vals y)\<rparr>"
  by (simp add: tbin_def bshape_same broadcast_to_same)

lemma bshape_row: "bshape [Suc 0, n] [b, n] = Some [b, n]"
  by (simp add: bshape_def lpad_def)
lemma bvals_row: "bvals [Suc 0, n] [b, n] vs = (if b = 1 then vs else concat (replicate b vs))"
  by (cases n) auto
lemma tbin_row:
  "shape x = [1, n] \<Longrightarrow> shape y = [b, n] \<Longrightarrow>
   tbin f x y = tbin f (broadcast_to [b, n] x) y"
  by (simp add: tbin_def bshape_row bshape_same broadcast_to_def bvals_same lpad_def)
lemma bvals_map: "bvals s d (map f vs) = map f (bvals s d vs)"
  by (induction s d vs rule: bvals.induct) (auto simp: map_concat take_map drop_map intro!: arg_cong[where f=concat])
lemma shape_tmap [simp]: "shape (tmap f x) = shape x" by (simp add: tmap_def)
lemma vals_tmap [simp]: "vals (tmap f x) = map f (vals x)" by (simp add: tmap_def)
lemma broadcast_to_tmap: "broadcast_to d (tmap f x) = tmap f (broadcast_to d x)"
  by (simp add: broadcast_to_def tmap_def bvals_map)
lemma shape_broadcast_to [simp]: "shape (broadcast_to d x) = d" by (simp add: broadcast_to_def)
lemma shape_tbin: "tbin f x y = Inr z \<Longrightarrow> bshape (shape x) (shape y) = Some (shape z)"
  by (auto simp: tbin_def split: option.splits)

lemma softplus_pos: "0 < c \<Longrightarrow> 0 < softplus c x"
  unfolding softplus_def by (simp add: ln_gt_zero)

lemma softplus_mono: assumes "0 < c" "x < y" shows "softplus c x < softplus c y"
proof -
  have "x / c < y / c" using assms by (simp add: divide_strict_right_mono)
  then have "1 + exp (x / c) < 1 + exp (y / c)" by simp
  moreover have "0 < 1 + exp (x / c)" "0 < 1 + exp (y / c)" by (simp_all add: add_pos_pos)
  ultimately have "ln (1 + exp (x / c)) < ln (1 + exp (y / c))"
    using ln_less_cancel_iff by blast
  then show ?thesis using assms unfolding softplus_def by simp
qed

lemma softclip_real_range: assumes "0 < c" shows "0 < softclip_real c x \<and> softclip_real c x < 1"
proof -
  have a: "0 < softplus c (1 - softplus c x)" using assms by (rule softplus_pos)
  have b: "softplus c (1 - softplus c x) < softplus c 1"
    using softplus_pos[OF assms, of x] by (intro softplus_mono[OF assms]) simp
  have c1: "0 < softplus c 1" using assms by (rule softplus_pos)
  from a b c1 show ?thesis unfolding softclip_real_def by (simp add: field_simps)
qed


lemma hard_clip1_zero:
  "fge u (Fin 0) \<Longrightarrow> fle l (Fin 0) \<Longrightarrow> hard_clip1 (Fin 0) l u = Fin 0"
  by (cases l; cases u) (auto simp: hard_clip1_def fminimum_def fmaximum_def fge_def)

lemma hard_clip1_degenerate:
  "fge u (Fin 0) \<Longrightarrow> fle l (Fin 0) \<Longrightarrow> l = u \<Longrightarrow> a \<noteq> NaN \<Longrightarrow> hard_clip1 a l u = Fin 0"
  by (cases a; cases u) (auto simp: hard_clip1_def fminimum_def fmaximum_def fge_def)

lemma soft_clip1_degenerate: "l = u \<Longrightarrow> soft_clip1 oc k c a l u = Fin 0"
  by (cases u) (auto simp: soft_clip1_def Let_def fsub_def fgt_def flt_def)




subsection \<open>The transform on tensors\<close>

lemma assert_ge_sameD:
  "assert_greater_equal x y m = Inr u \<Longrightarrow> shape x = shape y \<Longrightarrow> i < length (vals x) \<Longrightarrow> i < length (vals y) \<Longrightarrow> fge (vals x ! i) (vals y ! i)"
  by (auto simp: assert_greater_equal_def bshape_same broadcast_to_same list_all_iff set_zip split: if_splits)

lemma assert_ge0D:
  "assert_greater_equal0 x m = Inr u \<Longrightarrow> i < length (vals x) \<Longrightarrow> fge (vals x ! i) (Fin 0)"
  by (auto simp: assert_greater_equal0_def list_all_iff split: if_splits)

lemma assert_le0D:
  "assert_less_equal0 x m = Inr u \<Longrightarrow> i < length (vals x) \<Longrightarrow> fle (vals x ! i) (Fin 0)"
  by (auto simp: assert_less_equal0_def list_all_iff split: if_splits)

lemma clip_actions_same:
  assumes ret: "clip_actions g a lb ub = Inr act"
    and sh: "shape a = s" "shape lb = s" "shape ub = s"
  shows "shape act = s"
    and "length (vals act) = min (length (vals a)) (min (length (vals lb)) (length (vals ub)))"
    and "i < length (vals act) \<Longrightarrow>
           vals act ! i = (if hard_clip g then hard_clip1 (vals a ! i) (vals lb ! i) (vals ub ! i)
                           else soft_clip1 (outer_clip g) (outer_clip_cut_off g) (hinge_softness g)
                                  (vals a ! i) (vals lb ! i) (vals ub ! i))"
    and "\<not> hard_clip g \<Longrightarrow> list_all is_finite (vals act)"
  using ret sh
  by (auto simp: clip_actions_def ebind_eq_Inr tbin_same where_positive_def check_numerics_def
        hard_clip1_def soft_clip1_def Let_def split: if_splits)

lemma clip_actions_bounds_ok:
  assumes ret: "clip_actions g a lb ub = Inr act" and sh: "shape lb = shape ub"
  shows "i < length (vals lb) \<Longrightarrow> i < length (vals ub) \<Longrightarrow> fge (vals ub ! i) (vals lb ! i)"
    and "i < length (vals ub) \<Longrightarrow> fge (vals ub ! i) (Fin 0)"
    and "i < length (vals lb) \<Longrightarrow> fle (vals lb ! i) (Fin 0)"
proof -
  from ret obtain u1 u2 u3 where
    a1: "assert_greater_equal ub lb ''Upper bound for actions must be bigger than lower bound'' = Inr u1"
    and a2: "assert_greater_equal0 ub ''Upper bound for actions must not be negative'' = Inr u2"
    and a3: "assert_less_equal0 lb ''Lower bound for actions must not be positive'' = Inr u3"
    unfolding clip_actions_def ebind_eq_Inr by blast
  show "i < length (vals lb) \<Longrightarrow> i < length (vals ub) \<Longrightarrow> fge (vals ub ! i) (vals lb ! i)"
    using assert_ge_sameD[OF a1] sh by simp
  show "i < length (vals ub) \<Longrightarrow> fge (vals ub ! i) (Fin 0)" using assert_ge0D[OF a2] .
  show "i < length (vals lb) \<Longrightarrow> fle (vals lb ! i) (Fin 0)" using assert_le0D[OF a3] .
qed

lemma clip_actions_broadcast:
  assumes "shape a = [1, n]" "shape lb = [b, n]" "shape ub = [b, n]"
  shows "clip_actions g a lb ub = clip_actions g (broadcast_to [b, n] a) lb ub"
proof -
  have r: "\<And>f y. shape y = [b, n] \<Longrightarrow> tbin f a y = tbin f (broadcast_to [b, n] a) y"
    using assms(1) by (rule tbin_row)
  show ?thesis
    unfolding clip_actions_def using assms(2,3) by (simp add: r)
qed


lemma set_concat_replicate: "set (concat (replicate b vs)) \<subseteq> set vs"
  by (induction b) auto


lemma broadcast_row_set:
  "shape a = [1, n] \<Longrightarrow> set (vals (broadcast_to [b, n] a)) \<subseteq> set (vals a)"
  by (auto simp: broadcast_to_def lpad_def bvals_row)

text \<open>The raw action as the transform sees it against bounds of shape \<open>[B, N]\<close>.\<close>

lemma clip_actions_rows:
  assumes ret: "clip_actions g a lb ub = Inr act"
    and sh: "shape lb = [B, N]" "shape ub = [B, N]" "shape a = [B, N] \<or> shape a = [1, N]"
  shows "clip_actions g (broadcast_to [B, N] a) lb ub = Inr act"
  using ret sh clip_actions_broadcast[of a N lb B ub g] by (auto simp: broadcast_to_same)

lemma tbin_not_numerical: "tbin f x y \<noteq> Inl (NumericalError m)"
  by (simp add: tbin_def split: option.splits)

lemmas clip_ev = clip_actions_def tbin_same where_positive_def check_numerics_def
  assert_greater_equal_def assert_greater_equal0_def assert_less_equal0_def bshape_same broadcast_to_same
  fminimum_def fmaximum_def fsub_def fge_def fgt_def flt_def inf_signed_def

subsection \<open>Slices, the step and the call, taken apart\<close>

lemma concat_take1: "concat (map (\<lambda>i. take (Suc 0) (drop i vs)) [0..<length vs]) = vs"
proof (induction vs)
  case Nil
  show ?case by simp
next
  case (Cons x xs)
  have "[0..<length (x # xs)] = 0 # map Suc [0..<length xs]"
    by (simp add: upt_conv_Cons map_Suc_upt del: upt_Suc)
  then show ?case using Cons by (simp add: comp_def del: upt_Suc)
qed

lemma slice_col0_flat:
  "shape p = [B, 1] \<Longrightarrow> wf_tensor p \<Longrightarrow> slice_col0 p = Inr \<lparr>shape = [B], vals = vals p\<rparr>"
  using concat_take1[of "vals p"] by (simp add: slice_col0_def wf_tensor_def)

lemma slice_step_Inr:
  "slice_step x t = Inr y \<Longrightarrow> shape x = [b, m, n] \<Longrightarrow> shape y = [b, n] \<and> t < m"
  by (auto simp: slice_step_def split: if_splits)

lemma reduce_sum_axis1_Inr:
  "reduce_sum_axis1 x = Inr y \<Longrightarrow> shape x = [b, n] \<Longrightarrow>
     shape y = [b] \<and> vals y = map (\<lambda>i. fsum (take n (drop (i * n) (vals x)))) [0..<b]"
  by (auto simp: reduce_sum_axis1_def)

lemma tbin_same_Inr:
  "tbin f x y = Inr z \<Longrightarrow> shape x = s \<Longrightarrow> shape y = s \<Longrightarrow>
     shape z = s \<and> vals z = map2 f (vals x) (vals y)"
  by (auto simp: tbin_same)

lemma newaxis_mid_Inr:
  "newaxis_mid x = Inr y \<Longrightarrow> shape x = [b, n] \<Longrightarrow> shape y = [b, 1, n] \<and> vals y = vals x"
  by (auto simp: newaxis_mid_def)

lemma concat_axis1_Inr:
  "concat_axis1 x y = Inr z \<Longrightarrow> shape x = [b, m, n] \<Longrightarrow> shape y = [b, k, n] \<Longrightarrow> shape z = [b, m + k, n]"
  by (auto simp: concat_axis1_def)

lemma ebind_InrE: "ebind m f = Inr r \<Longrightarrow> (\<And>v. m = Inr v \<Longrightarrow> f v = Inr r \<Longrightarrow> P) \<Longrightarrow> P"
  by (cases m) (auto simp: ebind_def)

lemma choose_action_Inr:
  assumes "choose_action g ag training mkt fps fpp nBatch nInst t st = Inr (action, state)"
  shows "\<exists>lf lbnd ubnd.
     live_features ag fps fpp t st = Inr lf \<and>
     (shape (fst (policy ag lf training)) = [nBatch, nInst] \<or>
      shape (fst (policy ag lf training)) = [1, nInst]) \<and>
     slice_step (lbnd_a mkt) t = Inr lbnd \<and>
     slice_step (ubnd_a mkt) t = Inr ubnd \<and>
     clip_actions g (fst (policy ag lf training)) lbnd ubnd = Inr action \<and>
     state = (if is_recurrent ag then snd (policy ag lf training) else s_state st)"
  using assms unfolding choose_action_def
  by (auto simp: ebind_eq_Inr case_prod_beta split: if_splits)

lemma trade_Inr:
  assumes "trade mkt t action cost0 pnl0 = Inr (cost', pnl')"
  shows "\<exists>trading_cost cost_n cost_t hedges_t pnl_n pnl_t.
     slice_step (cost mkt) t = Inr trading_cost \<and>
     tbin fmul (tmap fabs action) trading_cost = Inr cost_n \<and>
     reduce_sum_axis1 cost_n = Inr cost_t \<and>
     tbin fadd cost0 cost_t = Inr cost' \<and>
     slice_step (hedges mkt) t = Inr hedges_t \<and>
     tbin fmul action hedges_t = Inr pnl_n \<and>
     reduce_sum_axis1 pnl_n = Inr pnl_t \<and>
     tbin fadd pnl0 pnl_t = Inr pnl'"
  using assms unfolding trade_def ebind_eq_Inr by auto

lemma step_Inr:
  assumes "step g ag training mkt fps fpp nBatch nInst t st = Inr st'"
  shows "choose_action g ag training mkt fps fpp nBatch nInst t st = Inr (s_action st', s_state st') \<and>
     tbin fadd (s_delta st) (s_action st') = Inr (s_delta st') \<and>
     record_action t (s_actions st) (s_action st') = Inr (s_actions st') \<and>
     trade mkt t (s_action st') (s_cost st) (s_pnl st) = Inr (s_cost st', s_pnl st')"
  using assms unfolding step_def ebind_eq_Inr by auto


lemma call_Inr:
  assumes "call g d training = Inr r"
  shows "\<exists>ag ut ut0 B T N fps fpp tc0 tc0' state st f0.
     agent g = Some ag \<and> utility g = Some ut \<and> utility0 g = Some ut0 \<and>
     shape (hedges (market d)) = [B, T, N] \<and>
     (if shape (payoff (market d)) = [B, 1] then slice_col0 (payoff (market d))
      else Inr (payoff (market d))) = Inr (r_payoff r) \<and>
     shape (cost (market d)) = [B, T, N] \<and>
     shape (ubnd_a (market d)) = [B, T, N] \<and>
     shape (lbnd_a (market d)) = [B, T, N] \<and>
     shape (r_payoff r) = [B] \<and>
     features d T = Inr (fps, fpp) \<and>
     slice_step (cost (market d)) 0 = Inr tc0 \<and>
     newaxis_mid tc0 = Inr tc0' \<and>
     initial_state ag training (zeros_like (r_payoff r)) = Inr state \<and>
     main_loop g ag training (market d) fps fpp B T N 0
       \<lparr>s_pnl = zeros_like (r_payoff r), s_cost = zeros_like (r_payoff r),
        s_delta = zeros_like tc0, s_action = zeros_like tc0,
        s_actions = zeros_like tc0', s_state = state\<rparr> = Inr st \<and>
     check_numerics (s_pnl st) ''Numerical error computing pnl'' = Inr (r_pnl r) \<and>
     check_numerics (s_cost st) ''Numerical error computing cost'' = Inr (r_cost r) \<and>
     features_time_0 fps fpp = Inr f0 \<and>
     r_utility r = ut \<lparr>u_features_time_0 = f0, u_payoff = r_payoff r, u_pnl = r_pnl r,
                        u_cost = r_cost r\<rparr> training \<and>
     r_utility0 r = ut0 \<lparr>u_features_time_0 = f0, u_payoff = r_payoff r,
                          u_pnl = tmap (\<lambda>v. fmul v (Fin 0)) (r_pnl r),
                          u_cost = tmap (\<lambda>v. fmul v (Fin 0)) (r_cost r)\<rparr> training \<and>
     tbin fsub (tmap fneg (r_utility r)) (r_utility0 r) = Inr (r_loss r) \<and>
     ebind (tbin fadd (r_payoff r) (r_pnl r)) (\<lambda>pp. tbin fsub pp (r_cost r)) = Inr (r_gains r) \<and>
     r_actions r = s_actions st"
  using assms unfolding call_def call_body_def
  by (auto simp: ebind_eq_Inr Let_def case_prod_beta
      split: option.splits list.splits if_splits)

lemmas call_ev = call_def call_body_def features_def path_features_def step_features_def live_features_def
  features_time_0_def step_def choose_action_def record_action_def trade_def initial_state_def main_loop.simps
  tmap_def zeros_like_def slice_step_def slice_col0_def newaxis_mid_def newaxis_last_def newaxis_first_def
  concat_axis1_def reduce_sum_axis1_def dict_update_def Let_def

lemmas ex_defs = const_agent_def gains_utility_def cube1_def market1_def data1_def built_gym_def
  default_gym_def debug_gym_def row1_def vec1_def

section \<open>The bounded action transform: bounds, degenerate intervals, finiteness\<close>




text \<open>
  C4 (as amended).  Where \<open>lbnd = ubnd\<close> at a position, the clipped action there is
  exactly 0 (so it is not NaN): in the soft-clip mode whatever the raw action is there,
  NaN and the infinities included; in the hard-clip mode for every raw action that is
  not NaN there.
\<close>

theorem clip_actions_degenerate:
  assumes ret: "clip_actions g a lb ub = Inr act"
    and sh: "shape lb = [B, N]" "shape ub = [B, N]" "shape a = [B, N] \<or> shape a = [1, N]"
    and i: "i < length (vals act)"
    and deg: "vals lb ! i = vals ub ! i"
    and nan: "hard_clip g \<longrightarrow> vals (broadcast_to [B, N] a) ! i \<noteq> NaN"
  shows "vals act ! i = Fin 0"
proof -
  let ?a = "broadcast_to [B, N] a"
  have ret': "clip_actions g ?a lb ub = Inr act" using clip_actions_rows[OF ret sh] .
  have sa: "shape ?a = [B, N]" by simp
  note cs = clip_actions_same[OF ret' sa sh(1) sh(2)]
  have il: "i < length (vals lb)" "i < length (vals ub)" using cs(2) i by simp_all
  have b: "fge (vals ub ! i) (Fin 0)" "fle (vals lb ! i) (Fin 0)"
    using clip_actions_bounds_ok[OF ret, of i] sh il by simp_all
  show ?thesis
    using cs(3)[OF i] nan deg b hard_clip1_degenerate[of "vals ub ! i" "vals lb ! i" "vals ?a ! i"]
      soft_clip1_degenerate[OF deg]
    by (cases "hard_clip g") simp_all
qed

theorem clip_actions_degenerate_witness:
  "clip_actions default_gym (row1 NaN) (row1 (Fin 0)) (row1 (Fin 0)) = Inr (row1 (Fin 0)) \<and>
   clip_actions default_gym (row1 PInf) (row1 (Fin 0)) (row1 (Fin 0)) = Inr (row1 (Fin 0)) \<and>
   clip_actions debug_gym (row1 (Fin 5)) (row1 (Fin 0)) (row1 (Fin 0)) = Inr (row1 (Fin 0)) \<and>
   vals (row1 (Fin 0)) ! 0 = Fin 0"
proof -
  have h1: "clip_actions default_gym (row1 NaN) (row1 (Fin 0)) (row1 (Fin 0)) = Inr (row1 (Fin 0))"
    and h2: "clip_actions default_gym (row1 PInf) (row1 (Fin 0)) (row1 (Fin 0)) = Inr (row1 (Fin 0))"
    and h3: "clip_actions debug_gym (row1 (Fin 5)) (row1 (Fin 0)) (row1 (Fin 0)) = Inr (row1 (Fin 0))"
    by (simp_all add: clip_ev debug_gym_def default_gym_def row1_def)
  have sh: "shape (row1 v) = [1, 1]" "0 < length (vals (row1 v))" for v
    by (simp_all add: row1_def)
  have "\<not> hard_clip default_gym" by (simp add: default_gym_def)
  then have "vals (row1 (Fin 0)) ! 0 = Fin 0"
    using clip_actions_degenerate[OF h1 sh(1) sh(1) _ sh(2)] sh(1) by blast
  then show ?thesis using h1 h2 h3 by blast
qed

text \<open>
  In the hard-clip mode, with both bounds 0, a NaN raw action gives a NaN clipped action.
\<close>

theorem clip_actions_degenerate_hard_nan_counterexample:
  "clip_actions debug_gym (row1 NaN) (row1 (Fin 0)) (row1 (Fin 0)) = Inr (row1 NaN) \<and>
   vals (row1 (Fin 0)) ! 0 = vals (row1 (Fin 0)) ! 0 \<and> vals (row1 NaN) ! 0 \<noteq> Fin 0"
  by (simp add: clip_ev debug_gym_def default_gym_def row1_def)

text \<open>
  C5 (as amended).  The finiteness check belongs to the soft-clip mode: there the
  transform returns only finite clipped actions, and on an action and bounds of one
  shape it either returns, or raises the numerical fault, or raises the fault of its
  assertions on the bounds.  The hard-clip mode returns before the check and never
  raises the numerical fault.
\<close>

theorem clip_actions_finiteness_check:
  "(\<not> hard_clip g \<longrightarrow> clip_actions g a lb ub = Inr act \<longrightarrow> list_all is_finite (vals act)) \<and>
   (\<not> hard_clip g \<and> shape a = shape ub \<and> shape lb = shape ub \<longrightarrow>
      (\<exists>act'. clip_actions g a lb ub = Inr act') \<or>
      (\<exists>m'. clip_actions g a lb ub = Inl (NumericalError m')) \<or>
      (\<exists>m'. clip_actions g a lb ub = Inl (BoundsViolation m'))) \<and>
   (hard_clip g \<longrightarrow> clip_actions g a lb ub \<noteq> Inl (NumericalError m))"
proof (intro conjI impI)
  assume "\<not> hard_clip g" "clip_actions g a lb ub = Inr act"
  then show "list_all is_finite (vals act)"
    by (auto simp: clip_actions_def ebind_eq_Inr check_numerics_def split: if_splits)
next
  assume h: "\<not> hard_clip g \<and> shape a = shape ub \<and> shape lb = shape ub"
  then show "(\<exists>act'. clip_actions g a lb ub = Inr act') \<or>
      (\<exists>m'. clip_actions g a lb ub = Inl (NumericalError m')) \<or>
      (\<exists>m'. clip_actions g a lb ub = Inl (BoundsViolation m'))"
    by (simp add: clip_actions_def tbin_same where_positive_def check_numerics_def
        assert_greater_equal_def assert_greater_equal0_def assert_less_equal0_def bshape_same)
next
  assume "hard_clip g"
  then show "clip_actions g a lb ub \<noteq> Inl (NumericalError m)"
    by (auto simp: clip_actions_def ebind_eq_Inl tbin_not_numerical
        assert_greater_equal_def assert_greater_equal0_def assert_less_equal0_def
      split: if_splits option.splits)
qed

theorem clip_actions_finiteness_check_witness:
  "\<not> hard_clip default_gym \<and>
   clip_actions default_gym (row1 (Fin 3)) (row1 (Fin (- 1))) (row1 (Fin 1)) =
     Inr (row1 (Fin (softclip_real 1 2 * 2 - 1))) \<and>
   list_all is_finite (vals (row1 (Fin (softclip_real 1 2 * 2 - 1)))) \<and>
   clip_actions default_gym (row1 NaN) (row1 (Fin (- 1))) (row1 (Fin 1)) =
     Inl (NumericalError ''Numerical error clipping action'') \<and>
   hard_clip debug_gym \<and>
   clip_actions debug_gym (row1 NaN) (row1 (Fin (- 1))) (row1 (Fin 1)) \<noteq>
     Inl (NumericalError ''Numerical error clipping action'')"
proof -
  have s: "clip_actions default_gym (row1 (Fin 3)) (row1 (Fin (- 1))) (row1 (Fin 1)) =
     Inr (row1 (Fin (softclip_real 1 2 * 2 - 1)))"
    and e: "clip_actions default_gym (row1 NaN) (row1 (Fin (- 1))) (row1 (Fin 1)) =
     Inl (NumericalError ''Numerical error clipping action'')"
    by (simp_all add: clip_ev default_gym_def row1_def)
  have c: "\<not> hard_clip default_gym" "hard_clip debug_gym"
    by (simp_all add: debug_gym_def default_gym_def)
  note t1 = clip_actions_finiteness_check[of default_gym "row1 (Fin 3)" "row1 (Fin (- 1))" "row1 (Fin 1)"
      "row1 (Fin (softclip_real 1 2 * 2 - 1))" "''Numerical error clipping action''"]
  note t2 = clip_actions_finiteness_check[of debug_gym "row1 NaN" "row1 (Fin (- 1))" "row1 (Fin 1)"
      "row1 NaN" "''Numerical error clipping action''"]
  from t1 c(1) s have f: "list_all is_finite (vals (row1 (Fin (softclip_real 1 2 * 2 - 1))))" by blast
  from t2 c(2) have n: "clip_actions debug_gym (row1 NaN) (row1 (Fin (- 1))) (row1 (Fin 1)) \<noteq>
     Inl (NumericalError ''Numerical error clipping action'')" by blast
  show ?thesis using c s e f n by blast
qed

text \<open>
  In the hard-clip mode an infinite raw action under an infinite upper bound, and a NaN
  raw action under finite bounds, are returned as they are.
\<close>

theorem clip_actions_hard_unchecked_counterexample:
  "hard_clip debug_gym \<and>
   clip_actions debug_gym (row1 PInf) (row1 (Fin 0)) (row1 PInf) = Inr (row1 PInf) \<and>
   \<not> is_finite (vals (row1 PInf) ! 0) \<and>
   clip_actions debug_gym (row1 NaN) (row1 (Fin (- 1))) (row1 (Fin 1)) = Inr (row1 NaN) \<and>
   \<not> is_finite (vals (row1 NaN) ! 0)"
  by (simp add: clip_ev debug_gym_def default_gym_def row1_def)

section \<open>The rollout loop\<close>

subsection \<open>The main loop and the shapes it keeps\<close>

lemma main_loop_invariant:
  assumes run: "main_loop g ag training mkt fps fpp nBatch nSteps nInst t st = Inr st'"
    and init: "I t st"
    and le: "t \<le> nSteps"
    and pres: "\<And>t st st'. t < nSteps \<Longrightarrow> I t st \<Longrightarrow>
                 step g ag training mkt fps fpp nBatch nInst t st = Inr st' \<Longrightarrow> I (Suc t) st'"
  shows "I nSteps st'"
  using run init le
proof (induction "nSteps - t" arbitrary: t st)
  case 0
  then show ?case by (subst (asm) main_loop.simps) simp
next
  case (Suc k)
  then have lt: "t < nSteps" by simp
  with Suc.prems(1) obtain st1 where
    s1: "step g ag training mkt fps fpp nBatch nInst t st = Inr st1"
    and r1: "main_loop g ag training mkt fps fpp nBatch nSteps nInst (Suc t) st1 = Inr st'"
    by (subst (asm) main_loop.simps) (auto simp: ebind_eq_Inr)
  have i1: "I (Suc t) st1" using pres[OF lt Suc.prems(2) s1] .
  have "k = nSteps - Suc t" using Suc.hyps(2) by simp
  then show ?case using Suc.hyps(1)[OF _ r1 i1] lt by simp
qed


lemma choose_action_shape:
  assumes ca: "choose_action g ag training mkt fps fpp B N t st = Inr (action, state)"
    and sh: "shape (lbnd_a mkt) = [B, T, N]" "shape (ubnd_a mkt) = [B, T, N]"
  shows "shape action = [B, N]" and "t < T"
proof -
  from choose_action_Inr[OF ca] obtain lf lbnd ubnd where
    a: "shape (fst (policy ag lf training)) = [B, N] \<or> shape (fst (policy ag lf training)) = [1, N]"
    and l: "slice_step (lbnd_a mkt) t = Inr lbnd" and u: "slice_step (ubnd_a mkt) t = Inr ubnd"
    and c: "clip_actions g (fst (policy ag lf training)) lbnd ubnd = Inr action"
    by blast
  have sl: "shape lbnd = [B, N]" "t < T" using slice_step_Inr[OF l sh(1)] by simp_all
  have su: "shape ubnd = [B, N]" using slice_step_Inr[OF u sh(2)] by simp
  show "t < T" by fact
  show "shape action = [B, N]"
    using clip_actions_same(1)[OF clip_actions_rows[OF c sl(1) su a] _ sl(1) su] by simp
qed

lemma record_action_shape:
  assumes "record_action t actions action = Inr actions'" "shape action = [B, N]"
    "0 < t \<longrightarrow> shape actions = [B, t, N]"
  shows "shape actions' = [B, Suc t, N]"
  using assms
  by (auto simp: record_action_def ebind_eq_Inr newaxis_mid_def concat_axis1_def split: if_splits)

lemma trade_shape:
  assumes tr: "trade mkt t action cost0 pnl0 = Inr (cost', pnl')"
    and sh: "shape (cost mkt) = [B, T, N]" "shape (hedges mkt) = [B, T, N]" "shape action = [B, N]"
      "shape cost0 = [B]" "shape pnl0 = [B]" "length (vals cost0) = B" "length (vals pnl0) = B"
  shows "shape cost' = [B] \<and> length (vals cost') = B \<and> shape pnl' = [B] \<and> length (vals pnl') = B"
proof -
  from trade_Inr[OF tr] obtain trading_cost cost_n cost_t hedges_t pnl_n pnl_t where
    f: "slice_step (cost mkt) t = Inr trading_cost"
      "tbin fmul (tmap fabs action) trading_cost = Inr cost_n"
      "reduce_sum_axis1 cost_n = Inr cost_t"
      "tbin fadd cost0 cost_t = Inr cost'"
      "slice_step (hedges mkt) t = Inr hedges_t"
      "tbin fmul action hedges_t = Inr pnl_n"
      "reduce_sum_axis1 pnl_n = Inr pnl_t"
      "tbin fadd pnl0 pnl_t = Inr pnl'"
    by blast
  have s1: "shape trading_cost = [B, N]" "shape hedges_t = [B, N]"
    using slice_step_Inr[OF f(1) sh(1)] slice_step_Inr[OF f(5) sh(2)] by simp_all
  have s2: "shape cost_n = [B, N]" "shape pnl_n = [B, N]"
    using tbin_same_Inr[OF f(2) _ s1(1)] tbin_same_Inr[OF f(6) sh(3) s1(2)] sh(3) by simp_all
  have s3: "shape cost_t = [B]" "length (vals cost_t) = B" "shape pnl_t = [B]" "length (vals pnl_t) = B"
    using reduce_sum_axis1_Inr[OF f(3) s2(1)] reduce_sum_axis1_Inr[OF f(7) s2(2)] by simp_all
  show ?thesis
    using tbin_same_Inr[OF f(4) sh(4) s3(1)] tbin_same_Inr[OF f(8) sh(5) s3(3)] s3 sh by simp
qed

lemma step_shapes:
  assumes st: "step g ag training mkt fps fpp B N t st = Inr st'"
    and sh: "shape (lbnd_a mkt) = [B, T, N]" "shape (ubnd_a mkt) = [B, T, N]"
      "shape (cost mkt) = [B, T, N]" "shape (hedges mkt) = [B, T, N]"
    and inv: "rollout_shapes B N t st"
  shows "rollout_shapes B N (Suc t) st'" and "shape (s_action st') = [B, N]"
proof -
  note s = step_Inr[OF st]
  have a: "shape (s_action st') = [B, N]"
    using choose_action_shape(1)[OF _ sh(1,2)] s by blast
  have r: "shape (s_actions st') = [B, Suc t, N]"
    using record_action_shape[OF _ a] s inv by (auto simp: rollout_shapes_def)
  have t: "shape (s_cost st') = [B] \<and> length (vals (s_cost st')) = B \<and>
           shape (s_pnl st') = [B] \<and> length (vals (s_pnl st')) = B"
    using trade_shape[OF _ sh(3,4) a] s inv by (auto simp: rollout_shapes_def)
  show "rollout_shapes B N (Suc t) st'" using r t by (simp add: rollout_shapes_def)
  show "shape (s_action st') = [B, N]" by fact
qed

lemma check_numerics_Inr: "check_numerics x m = Inr y \<Longrightarrow> y = x \<and> list_all is_finite (vals x)"
  by (auto simp: check_numerics_def split: if_splits)

lemma shape_zeros_like [simp]: "shape (zeros_like x) = shape x"
  by (simp add: zeros_like_def)

lemma vals_zeros_like [simp]: "vals (zeros_like x) = replicate (prod_list (shape x)) (Fin 0)"
  by (simp add: zeros_like_def)

text \<open>What every completed rollout has: the shapes of its final state, and at least one step.\<close>

lemma call_shapes:
  assumes c: "call g d training = Inr r" and h: "shape (hedges (market d)) = [B, T, N]"
  shows "shape (r_actions r) = [B, T, N]" "shape (r_payoff r) = [B]"
    "shape (r_pnl r) = [B]" "length (vals (r_pnl r)) = B" "list_all is_finite (vals (r_pnl r))"
    "shape (r_cost r) = [B]" "length (vals (r_cost r)) = B" "list_all is_finite (vals (r_cost r))"
    "0 < T"
proof -
  from call_Inr[OF c] h obtain ag fps fpp tc0 tc0' state st where
    m: "shape (cost (market d)) = [B, T, N]" "shape (ubnd_a (market d)) = [B, T, N]"
       "shape (lbnd_a (market d)) = [B, T, N]"
    and p: "shape (r_payoff r) = [B]"
    and t0: "slice_step (cost (market d)) 0 = Inr tc0"
    and run: "main_loop g ag training (market d) fps fpp B T N 0
       \<lparr>s_pnl = zeros_like (r_payoff r), s_cost = zeros_like (r_payoff r),
        s_delta = zeros_like tc0, s_action = zeros_like tc0,
        s_actions = zeros_like tc0', s_state = state\<rparr> = Inr st"
    and cn: "check_numerics (s_pnl st) ''Numerical error computing pnl'' = Inr (r_pnl r)"
       "check_numerics (s_cost st) ''Numerical error computing cost'' = Inr (r_cost r)"
    and a: "r_actions r = s_actions st"
    by auto
  have T: "0 < T" using slice_step_Inr[OF t0 m(1)] by simp
  have i0: "rollout_shapes B N 0 \<lparr>s_pnl = zeros_like (r_payoff r), s_cost = zeros_like (r_payoff r),
        s_delta = zeros_like tc0, s_action = zeros_like tc0,
        s_actions = zeros_like tc0', s_state = state\<rparr>"
    using p by (simp add: rollout_shapes_def)
  have inv: "rollout_shapes B N T st"
    using main_loop_invariant[where I = "rollout_shapes B N", OF run i0]
      step_shapes(1)[OF _ m(3) m(2) m(1) h] by blast
  show "0 < T" by fact
  show "shape (r_payoff r) = [B]" by fact
  show "shape (r_actions r) = [B, T, N]" using inv T a by (simp add: rollout_shapes_def)
  show "shape (r_pnl r) = [B]" "length (vals (r_pnl r)) = B" "list_all is_finite (vals (r_pnl r))"
    "shape (r_cost r) = [B]" "length (vals (r_cost r)) = B" "list_all is_finite (vals (r_cost r))"
    using inv check_numerics_Inr[OF cn(1)] check_numerics_Inr[OF cn(2)]
    by (simp_all add: rollout_shapes_def)
qed

subsection \<open>The collaborators as the rollout calls them\<close>

lemma map_fmul_zero:
  "list_all is_finite xs \<Longrightarrow> map (\<lambda>v. fmul v (Fin 0)) xs = replicate (length xs) (Fin 0)"
proof (induction xs)
  case Nil
  show ?case by simp
next
  case (Cons x xs)
  then show ?case by (cases x) simp_all
qed

lemma tmap_fmul_zero:
  assumes "shape x = [B]" "length (vals x) = B" "list_all is_finite (vals x)" "shape p = [B]"
  shows "tmap (\<lambda>v. fmul v (Fin 0)) x = zeros_like p"
  using assms map_fmul_zero[OF assms(3)] by (simp add: tmap_def zeros_like_def)

lemma build_Inr:
  assumes "build AgentFactory MonetaryUtility g0 s = Inr g"
  shows "utility g = Some (MonetaryUtility (config_objective g0) ''utility'')"
    and "utility0 g = Some (MonetaryUtility (config_objective g0) ''utility0'')"
    and "\<exists>nInst. agent g = Some (AgentFactory nInst (config_agent g0))"
  using assms by (auto simp: build_def split: if_splits list.splits)

lemma call_utilities:
  assumes c: "call g d training = Inr r" and h: "shape (hedges (market d)) = [B, T, N]"
  shows "\<exists>ut ut0 fps fpp f0.
     utility g = Some ut \<and> utility0 g = Some ut0 \<and>
     features d T = Inr (fps, fpp) \<and> features_time_0 fps fpp = Inr f0 \<and>
     (if shape (payoff (market d)) = [B, 1] then slice_col0 (payoff (market d))
      else Inr (payoff (market d))) = Inr (r_payoff r) \<and>
     r_utility r = ut \<lparr>u_features_time_0 = f0, u_payoff = r_payoff r, u_pnl = r_pnl r,
                        u_cost = r_cost r\<rparr> training \<and>
     r_utility0 r = ut0 \<lparr>u_features_time_0 = f0, u_payoff = r_payoff r,
                          u_pnl = zeros_like (r_payoff r),
                          u_cost = zeros_like (r_payoff r)\<rparr> training"
proof -
  note s = call_shapes[OF c h]
  have z: "tmap (\<lambda>v. fmul v (Fin 0)) (r_pnl r) = zeros_like (r_payoff r)"
    "tmap (\<lambda>v. fmul v (Fin 0)) (r_cost r) = zeros_like (r_payoff r)"
    using tmap_fmul_zero[OF s(3,4,5) s(2)] tmap_fmul_zero[OF s(6,7,8) s(2)] by simp_all
  from call_Inr[OF c] h z show ?thesis by auto
qed

section \<open>The result of a rollout\<close>

subsection \<open>Loss and gains\<close>

lemma fneg_fadd: "fsub (fneg u) v = fneg (fadd u v)"
  by (cases u; cases v) (auto simp: fsub_def)

lemma map2_fsub_fneg: "map2 fsub (map fneg xs) ys = map fneg (map2 fadd xs ys)"
proof (induction xs arbitrary: ys)
  case Nil
  show ?case by simp
next
  case (Cons a xs)
  then show ?case by (cases ys) (simp_all add: fneg_fadd)
qed

lemma tbin_fsub_fneg:
  "tbin fsub (tmap fneg x) y = ebind (tbin fadd x y) (\<lambda>s. Inr (tmap fneg s))"
proof (cases "bshape (shape x) (shape y)")
  case None
  then show ?thesis by (simp add: tbin_def)
next
  case (Some d)
  have "vals (broadcast_to d (tmap fneg x)) = map fneg (vals (broadcast_to d x))"
    by (simp add: broadcast_to_tmap)
  then show ?thesis using Some map2_fsub_fneg[of "vals (broadcast_to d x)" "vals (broadcast_to d y)"]
    by (simp add: tbin_def tmap_def)
qed

text \<open>A rollout of the example batch in the hard-clip mode, evaluated.\<close>

lemma call_example:
  "call (built_gym debug_gym (row1 (Fin 5))) (data1 (Fin 2) (Fin 3) (Fin (- 1)) (Fin 1) (vec1 (Fin 7))) False =
   Inr \<lparr>r_loss = vec1 (Fin (- 13)), r_utility = vec1 (Fin 6), r_utility0 = vec1 (Fin 7),
        r_gains = vec1 (Fin 6), r_payoff = vec1 (Fin 7), r_pnl = vec1 (Fin 2), r_cost = vec1 (Fin 3),
        r_actions = cube1 (Fin 1)\<rparr>"
  by (simp add: call_ev clip_ev ex_defs)

text \<open>
  C2.  The result of every completed rollout has \<open>loss = -(utility + utility0)\<close> and
  \<open>gains = payoff + pnl - cost\<close>, entry by entry, whatever the collaborators returned
  (the source computes the loss as \<open>-utility - utility0\<close>).
\<close>

theorem loss_and_gains:
  assumes "call g d training = Inr r"
  shows "ebind (tbin fadd (r_utility r) (r_utility0 r)) (\<lambda>s. Inr (tmap fneg s)) = Inr (r_loss r) \<and>
         ebind (tbin fadd (r_payoff r) (r_pnl r)) (\<lambda>s. tbin fsub s (r_cost r)) = Inr (r_gains r)"
  using call_Inr[OF assms] by (auto simp: tbin_fsub_fneg)

theorem loss_and_gains_witness:
  "call (built_gym debug_gym (row1 (Fin 5))) (data1 (Fin 2) (Fin 3) (Fin (- 1)) (Fin 1) (vec1 (Fin 7))) False =
   Inr \<lparr>r_loss = vec1 (Fin (- 13)), r_utility = vec1 (Fin 6), r_utility0 = vec1 (Fin 7),
        r_gains = vec1 (Fin 6), r_payoff = vec1 (Fin 7), r_pnl = vec1 (Fin 2), r_cost = vec1 (Fin 3),
        r_actions = cube1 (Fin 1)\<rparr> \<and>
   ebind (tbin fadd (vec1 (Fin 6)) (vec1 (Fin 7))) (\<lambda>s. Inr (tmap fneg s)) = Inr (vec1 (Fin (- 13))) \<and>
   ebind (tbin fadd (vec1 (Fin 7)) (vec1 (Fin 2))) (\<lambda>s. tbin fsub s (vec1 (Fin 3))) = Inr (vec1 (Fin 6))"
  using loss_and_gains[OF call_example] call_example by simp

subsection \<open>The zero action\<close>

lemma fmul_zero_cases: "fmul (Fin 0) h \<in> {Fin 0, NaN}"
  by (cases h) (simp_all add: inf_signed_def)

lemma fadd_zero_or_nan: "a \<in> {Fin 0, NaN} \<Longrightarrow> b \<in> {Fin 0, NaN} \<Longrightarrow> fadd a b \<in> {Fin 0, NaN}"
  by auto

lemma fsum_zero_or_nan: "set xs \<subseteq> {Fin 0, NaN} \<Longrightarrow> fsum xs \<in> {Fin 0, NaN}"
  by (induction xs) auto

lemma set_map2_subset:
  assumes "set xs \<subseteq> A" "set ys \<subseteq> B" "\<And>a b. a \<in> A \<Longrightarrow> b \<in> B \<Longrightarrow> f a b \<in> C"
  shows "set (map2 f xs ys) \<subseteq> C"
proof
  fix c assume "c \<in> set (map2 f xs ys)"
  then obtain a b where ab: "(a, b) \<in> set (zip xs ys)" and c: "c = f a b" by auto
  have "a \<in> A" "b \<in> B" using set_zip_leftD[OF ab] set_zip_rightD[OF ab] assms(1,2) by auto
  then show "c \<in> C" using c assms(3) by simp
qed


lemma choose_action_zero:
  assumes ca: "choose_action g ag training mkt fps fpp B N t st = Inr (action, state)"
    and sh: "shape (lbnd_a mkt) = [B, T, N]" "shape (ubnd_a mkt) = [B, T, N]"
    and hard: "hard_clip g"
    and zero: "\<And>lf tr. set (vals (fst (policy ag lf tr))) \<subseteq> {Fin 0}"
  shows "set (vals action) \<subseteq> {Fin 0}"
proof -
  from choose_action_Inr[OF ca] obtain lf lbnd ubnd where
    a: "shape (fst (policy ag lf training)) = [B, N] \<or> shape (fst (policy ag lf training)) = [1, N]"
    and l: "slice_step (lbnd_a mkt) t = Inr lbnd" and u: "slice_step (ubnd_a mkt) t = Inr ubnd"
    and c: "clip_actions g (fst (policy ag lf training)) lbnd ubnd = Inr action"
    by blast
  let ?a = "broadcast_to [B, N] (fst (policy ag lf training))"
  have sl: "shape lbnd = [B, N]" using slice_step_Inr[OF l sh(1)] by simp
  have su: "shape ubnd = [B, N]" using slice_step_Inr[OF u sh(2)] by simp
  have c': "clip_actions g ?a lbnd ubnd = Inr action" using clip_actions_rows[OF c sl su a] .
  have sa: "shape ?a = [B, N]" by simp
  note cs = clip_actions_same[OF c' sa sl su]
  have za: "set (vals ?a) \<subseteq> {Fin 0}"
    using a zero[of lf training] broadcast_row_set[of "fst (policy ag lf training)" N B]
    by (auto simp: broadcast_to_same)
  have "vals action ! i = Fin 0" if i: "i < length (vals action)" for i
  proof -
    have il: "i < length (vals ?a)" "i < length (vals lbnd)" "i < length (vals ubnd)"
      using cs(2) i by simp_all
    have "vals ?a ! i = Fin 0" using za il(1) nth_mem by fastforce
    then show ?thesis
      using cs(3)[OF i] hard hard_clip1_zero clip_actions_bounds_ok(2,3)[OF c] sl su il by simp
  qed
  then show ?thesis by (auto simp: in_set_conv_nth)
qed

lemma set_take_drop_subset: "set (take n (drop k xs)) \<subseteq> set xs"
  by (meson set_take_subset set_drop_subset subset_trans)

lemma trade_zero:
  assumes tr: "trade mkt t action cost0 pnl0 = Inr (cost', pnl')"
    and sh: "shape (cost mkt) = [B, T, N]" "shape (hedges mkt) = [B, T, N]" "shape action = [B, N]"
      "shape cost0 = [B]" "shape pnl0 = [B]"
    and za: "set (vals action) \<subseteq> {Fin 0}"
    and z0: "set (vals cost0) \<subseteq> {Fin 0, NaN}" "set (vals pnl0) \<subseteq> {Fin 0, NaN}"
  shows "set (vals cost') \<subseteq> {Fin 0, NaN} \<and> set (vals pnl') \<subseteq> {Fin 0, NaN}"
proof -
  from trade_Inr[OF tr] obtain trading_cost cost_n cost_t hedges_t pnl_n pnl_t where
    f: "slice_step (cost mkt) t = Inr trading_cost"
      "tbin fmul (tmap fabs action) trading_cost = Inr cost_n"
      "reduce_sum_axis1 cost_n = Inr cost_t"
      "tbin fadd cost0 cost_t = Inr cost'"
      "slice_step (hedges mkt) t = Inr hedges_t"
      "tbin fmul action hedges_t = Inr pnl_n"
      "reduce_sum_axis1 pnl_n = Inr pnl_t"
      "tbin fadd pnl0 pnl_t = Inr pnl'"
    by blast
  have s1: "shape trading_cost = [B, N]" "shape hedges_t = [B, N]"
    using slice_step_Inr[OF f(1) sh(1)] slice_step_Inr[OF f(5) sh(2)] by simp_all
  have n1: "shape cost_n = [B, N]" "vals cost_n = map2 fmul (map fabs (vals action)) (vals trading_cost)"
    using tbin_same_Inr[OF f(2) _ s1(1)] sh(3) by simp_all
  have n2: "shape pnl_n = [B, N]" "vals pnl_n = map2 fmul (vals action) (vals hedges_t)"
    using tbin_same_Inr[OF f(6) sh(3) s1(2)] by simp_all
  have za': "set (map fabs (vals action)) \<subseteq> {Fin 0}" using za by auto
  have zc: "set (vals cost_n) \<subseteq> {Fin 0, NaN}"
    unfolding n1(2) using fmul_zero_cases by (intro set_map2_subset[OF za' subset_UNIV]) auto
  have zp: "set (vals pnl_n) \<subseteq> {Fin 0, NaN}"
    unfolding n2(2) using fmul_zero_cases by (intro set_map2_subset[OF za subset_UNIV]) auto
  have t1: "shape cost_t = [B]" "set (vals cost_t) \<subseteq> {Fin 0, NaN}"
    using reduce_sum_axis1_Inr[OF f(3) n1(1)] fsum_zero_or_nan zc set_take_drop_subset
    by (auto intro!: fsum_zero_or_nan dest: subsetD[OF set_take_drop_subset])
  have t2: "shape pnl_t = [B]" "set (vals pnl_t) \<subseteq> {Fin 0, NaN}"
    using reduce_sum_axis1_Inr[OF f(7) n2(1)] zp
    by (auto intro!: fsum_zero_or_nan dest: subsetD[OF set_take_drop_subset])
  have "set (vals cost') \<subseteq> {Fin 0, NaN}"
    using tbin_same_Inr[OF f(4) sh(4) t1(1)] set_map2_subset[OF z0(1) t1(2) fadd_zero_or_nan] by simp
  moreover have "set (vals pnl') \<subseteq> {Fin 0, NaN}"
    using tbin_same_Inr[OF f(8) sh(5) t2(1)] set_map2_subset[OF z0(2) t2(2) fadd_zero_or_nan] by simp
  ultimately show ?thesis by simp
qed


lemma step_zero:
  assumes st: "step g ag training mkt fps fpp B N t st = Inr st'"
    and sh: "shape (lbnd_a mkt) = [B, T, N]" "shape (ubnd_a mkt) = [B, T, N]"
      "shape (cost mkt) = [B, T, N]" "shape (hedges mkt) = [B, T, N]"
    and hard: "hard_clip g"
    and zero: "\<And>lf tr. set (vals (fst (policy ag lf tr))) \<subseteq> {Fin 0}"
    and inv: "rollout_shapes B N t st"
      "set (vals (s_cost st)) \<subseteq> {Fin 0, NaN}" "set (vals (s_pnl st)) \<subseteq> {Fin 0, NaN}"
  shows "set (vals (s_cost st')) \<subseteq> {Fin 0, NaN} \<and> set (vals (s_pnl st')) \<subseteq> {Fin 0, NaN}"
proof -
  note s = step_Inr[OF st]
  have a: "shape (s_action st') = [B, N]" using step_shapes(2)[OF st sh inv(1)] .
  have z: "set (vals (s_action st')) \<subseteq> {Fin 0}"
    using choose_action_zero[OF _ sh(1,2) hard zero] s by blast
  have tr: "trade mkt t (s_action st') (s_cost st) (s_pnl st) = Inr (s_cost st', s_pnl st')"
    using s by simp
  have i: "shape (s_cost st) = [B]" "shape (s_pnl st) = [B]"
    using inv(1) by (simp_all add: rollout_shapes_def)
  show ?thesis using trade_zero[OF tr sh(3,4) a i z inv(2,3)] .
qed

lemma all_zero_replicate:
  assumes "set xs \<subseteq> {Fin 0, NaN}" "list_all is_finite xs"
  shows "xs = replicate (length xs) (Fin 0)"
  using assms by (induction xs) auto

lemma map2_fadd_zeros: "length xs = n \<Longrightarrow> map2 fadd xs (replicate n (Fin 0)) = xs"
proof (induction xs arbitrary: n)
  case Nil
  show ?case by simp
next
  case (Cons x xs)
  then show ?case by (cases n; cases x) auto
qed

lemma map2_fsub_zeros: "length xs = n \<Longrightarrow> map2 fsub xs (replicate n (Fin 0)) = xs"
proof (induction xs arbitrary: n)
  case Nil
  show ?case by simp
next
  case (Cons x xs)
  then show ?case by (cases n; cases x) (auto simp: fsub_def)
qed

lemma call_payoff_wf:
  assumes c: "call g d training = Inr r" and h: "shape (hedges (market d)) = [B, T, N]"
    and wf: "wf_tensor (payoff (market d))"
  shows "length (vals (r_payoff r)) = B"
    and "r_payoff r = \<lparr>shape = [B], vals = vals (payoff (market d))\<rparr>"
proof -
  from call_Inr[OF c] h have
    p: "(if shape (payoff (market d)) = [B, 1] then slice_col0 (payoff (market d))
         else Inr (payoff (market d))) = Inr (r_payoff r)" and s: "shape (r_payoff r) = [B]"
    by auto
  show e: "r_payoff r = \<lparr>shape = [B], vals = vals (payoff (market d))\<rparr>"
    using p s slice_col0_flat[OF _ wf, of B] by (auto split: if_splits)
  show "length (vals (r_payoff r)) = B"
  proof (cases "shape (payoff (market d)) = [B, 1]")
    case True
    then show ?thesis using e wf by (simp add: wf_tensor_def)
  next
    case False
    then have "r_payoff r = payoff (market d)" using p by simp
    then show ?thesis using s wf by (simp add: wf_tensor_def)
  qed
qed

text \<open>
  C1 (as amended).  In the hard-clip mode, if the policy returns the zero raw action at
  every step, then every completed rollout has \<open>pnl = 0\<close> and \<open>cost = 0\<close> on every
  path and reports gains equal to the payoff.
\<close>

theorem zero_action_rollout:
  assumes c: "call g d training = Inr r"
    and hard: "hard_clip g"
    and ag: "agent g = Some ag"
    and zero: "\<forall>lf tr. set (vals (fst (policy ag lf tr))) \<subseteq> {Fin 0}"
    and wf: "wf_tensor (payoff (market d))"
  shows "r_pnl r = zeros_like (r_payoff r) \<and> r_cost r = zeros_like (r_payoff r) \<and>
         r_gains r = r_payoff r"
proof -
  from call_Inr[OF c] ag obtain B T N fps fpp tc0 tc0' state st pp where
    h: "shape (hedges (market d)) = [B, T, N]"
    and m: "shape (cost (market d)) = [B, T, N]" "shape (ubnd_a (market d)) = [B, T, N]"
       "shape (lbnd_a (market d)) = [B, T, N]"
    and p: "shape (r_payoff r) = [B]"
    and run: "main_loop g ag training (market d) fps fpp B T N 0
       \<lparr>s_pnl = zeros_like (r_payoff r), s_cost = zeros_like (r_payoff r),
        s_delta = zeros_like tc0, s_action = zeros_like tc0,
        s_actions = zeros_like tc0', s_state = state\<rparr> = Inr st"
    and cn: "check_numerics (s_pnl st) ''Numerical error computing pnl'' = Inr (r_pnl r)"
       "check_numerics (s_cost st) ''Numerical error computing cost'' = Inr (r_cost r)"
    and g1: "tbin fadd (r_payoff r) (r_pnl r) = Inr pp" and g2: "tbin fsub pp (r_cost r) = Inr (r_gains r)"
    by (auto simp: ebind_eq_Inr)
  let ?I = "\<lambda>t st. rollout_shapes B N t st \<and> set (vals (s_cost st)) \<subseteq> {Fin 0, NaN} \<and>
                    set (vals (s_pnl st)) \<subseteq> {Fin 0, NaN}"
  have i0: "?I 0 \<lparr>s_pnl = zeros_like (r_payoff r), s_cost = zeros_like (r_payoff r),
        s_delta = zeros_like tc0, s_action = zeros_like tc0,
        s_actions = zeros_like tc0', s_state = state\<rparr>"
    using p by (auto simp: rollout_shapes_def)
  have inv: "?I T st"
  proof (rule main_loop_invariant[where I = ?I, OF run])
    show "?I 0 \<lparr>s_pnl = zeros_like (r_payoff r), s_cost = zeros_like (r_payoff r),
        s_delta = zeros_like tc0, s_action = zeros_like tc0,
        s_actions = zeros_like tc0', s_state = state\<rparr>" by (rule i0)
    show "0 \<le> T" by simp
    fix t st st'
    assume i: "?I t st" and s: "step g ag training (market d) fps fpp B N t st = Inr st'"
    have z: "\<And>lf tr. set (vals (fst (policy ag lf tr))) \<subseteq> {Fin 0}" using zero by blast
    from i have i1: "rollout_shapes B N t st" and i2: "set (vals (s_cost st)) \<subseteq> {Fin 0, NaN}"
      and i3: "set (vals (s_pnl st)) \<subseteq> {Fin 0, NaN}" by blast+
    show "?I (Suc t) st'"
      using step_shapes(1)[OF s m(3) m(2) m(1) h i1] step_zero[OF s m(3) m(2) m(1) h hard z i1 i2 i3]
      by blast
  qed
  note s = call_shapes[OF c h]
  have e: "r_pnl r = s_pnl st" "r_cost r = s_cost st"
    using check_numerics_Inr[OF cn(1)] check_numerics_Inr[OF cn(2)] by simp_all
  have zp: "vals (r_pnl r) = replicate B (Fin 0)"
    using all_zero_replicate[OF _ s(5)] inv e s(4) by simp
  have zc: "vals (r_cost r) = replicate B (Fin 0)"
    using all_zero_replicate[OF _ s(8)] inv e s(7) by simp
  have pnl: "r_pnl r = zeros_like (r_payoff r)" using zp s(3) p by (simp add: zeros_like_def)
  have cost: "r_cost r = zeros_like (r_payoff r)" using zc s(6) p by (simp add: zeros_like_def)
  have lp: "length (vals (r_payoff r)) = B" using call_payoff_wf(1)[OF c h wf] .
  have "shape pp = [B]" "vals pp = vals (r_payoff r)"
    using tbin_same_Inr[OF g1 p s(3)] zp map2_fadd_zeros[OF lp] by simp_all
  then have "shape (r_gains r) = [B]" "vals (r_gains r) = vals (r_payoff r)"
    using tbin_same_Inr[OF g2 _ s(6)] zc map2_fsub_zeros[OF lp] by simp_all
  then have "r_gains r = r_payoff r" using p by simp
  then show ?thesis using pnl cost by simp
qed

lemma call_zero_example:
  "call (built_gym debug_gym (row1 (Fin 0))) (data1 (Fin 2) (Fin 1) (Fin 0) (Fin 1) (vec1 (Fin 7))) False =
     Inr \<lparr>r_loss = vec1 (Fin (- 14)), r_utility = vec1 (Fin 7), r_utility0 = vec1 (Fin 7),
          r_gains = vec1 (Fin 7), r_payoff = vec1 (Fin 7), r_pnl = vec1 (Fin 0),
          r_cost = vec1 (Fin 0), r_actions = cube1 (Fin 0)\<rparr>"
  by (simp add: call_ev clip_ev ex_defs)

theorem zero_action_rollout_witness:
  "call (built_gym debug_gym (row1 (Fin 0))) (data1 (Fin 2) (Fin 1) (Fin 0) (Fin 1) (vec1 (Fin 7))) False =
     Inr \<lparr>r_loss = vec1 (Fin (- 14)), r_utility = vec1 (Fin 7), r_utility0 = vec1 (Fin 7),
          r_gains = vec1 (Fin 7), r_payoff = vec1 (Fin 7), r_pnl = vec1 (Fin 0),
          r_cost = vec1 (Fin 0), r_actions = cube1 (Fin 0)\<rparr> \<and>
   hard_clip (built_gym debug_gym (row1 (Fin 0))) \<and>
   agent (built_gym debug_gym (row1 (Fin 0))) = Some (const_agent (row1 (Fin 0))) \<and>
   set (vals (row1 (Fin 0))) \<subseteq> {Fin 0} \<and>
   wf_tensor (vec1 (Fin 7)) \<and>
   vec1 (Fin 0) = zeros_like (vec1 (Fin 7))"
proof -
  have z: "\<forall>lf tr. set (vals (fst (policy (const_agent (row1 (Fin 0))) lf tr))) \<subseteq> {Fin 0}"
    by (simp add: ex_defs)
  have h: "hard_clip (built_gym debug_gym (row1 (Fin 0)))"
    "agent (built_gym debug_gym (row1 (Fin 0))) = Some (const_agent (row1 (Fin 0)))"
    "wf_tensor (payoff (market (data1 (Fin 2) (Fin 1) (Fin 0) (Fin 1) (vec1 (Fin 7)))))"
    "wf_tensor (vec1 (Fin 7))" "set (vals (row1 (Fin 0))) \<subseteq> {Fin 0}"
    by (simp_all add: ex_defs wf_tensor_def)
  from zero_action_rollout[OF call_zero_example h(1) h(2) z h(3)]
  have "vec1 (Fin 0) = zeros_like (vec1 (Fin 7))" by simp
  then show ?thesis using call_zero_example h by simp
qed

text \<open>
  In the soft-clip mode the zero raw action is not clipped to zero: with bounds
  \<open>[0, 1]\<close> it is mapped to \<open>softclip 0\<close>, which is positive, so one step with hedge
  return 2 and cost rate 1 leaves a positive P&L and cost, and gains above the payoff.
\<close>

lemma softclip_at_zero: "0 < softclip_real 1 0"
  using softclip_real_range[of 1 0] by simp

theorem zero_action_soft_clip_counterexample:
  "\<not> hard_clip (built_gym default_gym (row1 (Fin 0))) \<and>
   call (built_gym default_gym (row1 (Fin 0))) (data1 (Fin 2) (Fin 1) (Fin 0) (Fin 1) (vec1 (Fin 7))) False =
     Inr \<lparr>r_loss = vec1 (Fin (- 14 - softclip_real 1 0)),
          r_utility = vec1 (Fin (7 + softclip_real 1 0)),
          r_utility0 = vec1 (Fin 7),
          r_gains = vec1 (Fin (7 + softclip_real 1 0)),
          r_payoff = vec1 (Fin 7),
          r_pnl = vec1 (Fin (2 * softclip_real 1 0)),
          r_cost = vec1 (Fin (softclip_real 1 0)),
          r_actions = cube1 (Fin (softclip_real 1 0))\<rparr> \<and>
   0 < softclip_real 1 0"
  using softclip_at_zero by (simp add: call_ev clip_ev ex_defs)

subsection \<open>Shapes of the result\<close>

lemma call_other_example:
  "call (built_gym debug_gym (row1 (Fin (- 5)))) (data1 (Fin 2) (Fin 3) (Fin (- 1)) (Fin 1) (vec1 (Fin 7))) False =
   Inr \<lparr>r_loss = vec1 (Fin (- 9)), r_utility = vec1 (Fin 2), r_utility0 = vec1 (Fin 7),
        r_gains = vec1 (Fin 2), r_payoff = vec1 (Fin 7), r_pnl = vec1 (Fin (- 2)), r_cost = vec1 (Fin 3),
        r_actions = cube1 (Fin (- 1))\<rparr>"
  by (simp add: call_ev clip_ev ex_defs)

lemma build_example:
  "build (\<lambda>n c. const_agent a) (\<lambda>c name. gains_utility) g [b, t, n] =
     (if agent g = None then Inr (built_gym g a) else Inl (AssertionError ''build() called twice?''))"
  by (simp add: build_def built_gym_def)

subsection \<open>The recorded history\<close>



















subsection \<open>The baseline utility\<close>

text \<open>
  C9.  After \<^verbatim>\<open>build\<close>, the hedged utility is the instance made under the name
  \<^verbatim>\<open>utility\<close>, called on payoff, P&L, cost and the time-zero features; the baseline is
  the instance made under the name \<^verbatim>\<open>utility0\<close>, called on the same payoff and
  time-zero features with P&L and cost replaced by zeros of the payoff's shape.  Two
  completed rollouts over the same data with the same objective configuration have the
  same baseline, whatever their agents and clipping modes are.
\<close>

theorem baseline_utility:
  assumes b: "build AgentFactory MonetaryUtility g0 s = Inr g"
    and b': "build AgentFactory' MonetaryUtility g0' s' = Inr g'"
    and co: "config_objective g0' = config_objective g0"
    and c: "call g d training = Inr r" and c': "call g' d training = Inr r'"
  shows "(\<exists>f0. r_utility r = MonetaryUtility (config_objective g0) ''utility''
                  \<lparr>u_features_time_0 = f0, u_payoff = r_payoff r, u_pnl = r_pnl r,
                   u_cost = r_cost r\<rparr> training \<and>
               r_utility0 r = MonetaryUtility (config_objective g0) ''utility0''
                  \<lparr>u_features_time_0 = f0, u_payoff = r_payoff r,
                   u_pnl = zeros_like (r_payoff r), u_cost = zeros_like (r_payoff r)\<rparr> training) \<and>
         r_utility0 r' = r_utility0 r"
proof -
  from call_Inr[OF c] obtain B T N where h: "shape (hedges (market d)) = [B, T, N]" by blast
  from call_utilities[OF c h] build_Inr(1,2)[OF b] obtain fps fpp f0 where
    f: "features d T = Inr (fps, fpp)" "features_time_0 fps fpp = Inr f0"
    and p: "(if shape (payoff (market d)) = [B, 1] then slice_col0 (payoff (market d))
      else Inr (payoff (market d))) = Inr (r_payoff r)"
    and u: "r_utility r = MonetaryUtility (config_objective g0) ''utility''
              \<lparr>u_features_time_0 = f0, u_payoff = r_payoff r, u_pnl = r_pnl r,
               u_cost = r_cost r\<rparr> training"
    and u0: "r_utility0 r = MonetaryUtility (config_objective g0) ''utility0''
              \<lparr>u_features_time_0 = f0, u_payoff = r_payoff r,
               u_pnl = zeros_like (r_payoff r), u_cost = zeros_like (r_payoff r)\<rparr> training"
    by auto
  from call_utilities[OF c' h] build_Inr(2)[OF b'] f p co
  have "r_utility0 r' = MonetaryUtility (config_objective g0) ''utility0''
              \<lparr>u_features_time_0 = f0, u_payoff = r_payoff r,
               u_pnl = zeros_like (r_payoff r), u_cost = zeros_like (r_payoff r)\<rparr> training"
    by auto
  then show ?thesis using u u0 by auto
qed

theorem baseline_utility_witness:
  "build (\<lambda>n c. const_agent (row1 (Fin 5))) (\<lambda>c name. gains_utility) debug_gym [1, 1, 1] =
     Inr (built_gym debug_gym (row1 (Fin 5))) \<and>
   build (\<lambda>n c. const_agent (row1 (Fin (- 5)))) (\<lambda>c name. gains_utility) debug_gym [1, 1, 1] =
     Inr (built_gym debug_gym (row1 (Fin (- 5)))) \<and>
   r_utility0 (projr (call (built_gym debug_gym (row1 (Fin (- 5))))
       (data1 (Fin 2) (Fin 3) (Fin (- 1)) (Fin 1) (vec1 (Fin 7))) False)) = vec1 (Fin 7) \<and>
   r_utility0 (projr (call (built_gym debug_gym (row1 (Fin 5)))
       (data1 (Fin 2) (Fin 3) (Fin (- 1)) (Fin 1) (vec1 (Fin 7))) False)) = vec1 (Fin 7) \<and>
   r_pnl (projr (call (built_gym debug_gym (row1 (Fin (- 5))))
       (data1 (Fin 2) (Fin 3) (Fin (- 1)) (Fin 1) (vec1 (Fin 7))) False)) = vec1 (Fin (- 2)) \<and>
   r_pnl (projr (call (built_gym debug_gym (row1 (Fin 5)))
       (data1 (Fin 2) (Fin 3) (Fin (- 1)) (Fin 1) (vec1 (Fin 7))) False)) = vec1 (Fin 2)"
proof -
  have n: "agent debug_gym = None" by (simp add: debug_gym_def default_gym_def)
  have b: "build (\<lambda>n c. const_agent (row1 (Fin 5))) (\<lambda>c name. gains_utility) debug_gym [1, 1, 1] =
     Inr (built_gym debug_gym (row1 (Fin 5)))"
    and b': "build (\<lambda>n c. const_agent (row1 (Fin (- 5)))) (\<lambda>c name. gains_utility) debug_gym [1, 1, 1] =
     Inr (built_gym debug_gym (row1 (Fin (- 5))))"
    using n by (simp_all add: build_example)
  have "r_utility0 (projr (call (built_gym debug_gym (row1 (Fin (- 5))))
       (data1 (Fin 2) (Fin 3) (Fin (- 1)) (Fin 1) (vec1 (Fin 7))) False)) =
     r_utility0 (projr (call (built_gym debug_gym (row1 (Fin 5)))
       (data1 (Fin 2) (Fin 3) (Fin (- 1)) (Fin 1) (vec1 (Fin 7))) False))"
    using baseline_utility[OF b b' refl call_example call_other_example]
    by (simp add: call_example call_other_example)
  then show ?thesis using b b' by (simp add: call_example call_other_example)
qed

section \<open>Shape validation at the interface\<close>

subsection \<open>Where a shape-mismatch fault can come from\<close>

lemma ebind_neq_Inl:
  "m \<noteq> Inl e \<Longrightarrow> (\<And>v. m = Inr v \<Longrightarrow> f v \<noteq> Inl e) \<Longrightarrow> ebind m f \<noteq> Inl e"
  by (cases m) auto

lemma emap_neq_Inl: "(\<And>x. f x \<noteq> Inl e) \<Longrightarrow> emap f xs \<noteq> Inl e"
  by (induction xs) (auto simp: ebind_eq_Inl)

lemma no_mismatch_prims:
  "tbin f x y \<noteq> Inl (ShapeMismatch s)"
  "slice_step x t \<noteq> Inl (ShapeMismatch s)"
  "slice_col0 x \<noteq> Inl (ShapeMismatch s)"
  "newaxis_mid x \<noteq> Inl (ShapeMismatch s)"
  "newaxis_last x \<noteq> Inl (ShapeMismatch s)"
  "newaxis_first x \<noteq> Inl (ShapeMismatch s)"
  "concat_axis1 x y \<noteq> Inl (ShapeMismatch s)"
  "reduce_sum_axis1 x \<noteq> Inl (ShapeMismatch s)"
  "check_numerics x m \<noteq> Inl (ShapeMismatch s)"
  "assert_greater_equal x y m \<noteq> Inl (ShapeMismatch s)"
  "assert_greater_equal0 x m \<noteq> Inl (ShapeMismatch s)"
  "assert_less_equal0 x m \<noteq> Inl (ShapeMismatch s)"
  "tf_make_dim obj n \<noteq> Inl (ShapeMismatch s)"
  "path_features fpp \<noteq> Inl (ShapeMismatch s)"
  by (auto simp: tbin_def slice_step_def slice_col0_def newaxis_mid_def newaxis_last_def
      newaxis_first_def concat_axis1_def reduce_sum_axis1_def check_numerics_def
      assert_greater_equal_def assert_greater_equal0_def assert_less_equal0_def tf_make_dim_def
      path_features_def
      split: option.splits list.splits if_splits pyobj.splits)

lemma no_mismatch_per_step: "per_step_feature n kv \<noteq> Inl (ShapeMismatch s)"
  by (cases kv) (auto simp: per_step_feature_def ebind_eq_Inl no_mismatch_prims)

lemma no_mismatch_features:
  "features d n \<noteq> Inl (ShapeMismatch s)"
  "step_features fps t \<noteq> Inl (ShapeMismatch s)"
  "live_features ag fps fpp t st \<noteq> Inl (ShapeMismatch s)"
  "features_time_0 fps fpp \<noteq> Inl (ShapeMismatch s)"
  unfolding features_def step_features_def live_features_def features_time_0_def Let_def
  by (auto simp: ebind_eq_Inl emap_neq_Inl no_mismatch_prims no_mismatch_per_step split: if_splits)

lemma no_mismatch_clip: "clip_actions g a lb ub \<noteq> Inl (ShapeMismatch s)"
  unfolding clip_actions_def where_positive_def
  by (auto simp: ebind_eq_Inl no_mismatch_prims split: if_splits)

lemma no_mismatch_stages:
  "record_action t actions action \<noteq> Inl (ShapeMismatch s)"
  "trade mkt t action cost0 pnl0 \<noteq> Inl (ShapeMismatch s)"
  "initial_state ag training pnl \<noteq> Inl (ShapeMismatch s)"
  unfolding record_action_def trade_def initial_state_def
  by (auto simp: ebind_eq_Inl no_mismatch_prims split: if_splits)

lemma choose_action_mismatch:
  assumes "choose_action g ag training mkt fps fpp B N t st = Inl (ShapeMismatch s)"
  shows "s = ''action'' \<and>
    (\<exists>lf. live_features ag fps fpp t st = Inr lf \<and>
          shape (fst (policy ag lf training)) \<noteq> [B, N] \<and>
          shape (fst (policy ag lf training)) \<noteq> [1, N])"
  using assms unfolding choose_action_def
  by (auto simp: ebind_eq_Inl case_prod_beta no_mismatch_prims no_mismatch_features no_mismatch_clip
      split: if_splits)

lemma step_mismatch:
  assumes "step g ag training mkt fps fpp B N t st = Inl (ShapeMismatch s)"
  shows "s = ''action'' \<and>
    (\<exists>lf. live_features ag fps fpp t st = Inr lf \<and>
          shape (fst (policy ag lf training)) \<noteq> [B, N] \<and>
          shape (fst (policy ag lf training)) \<noteq> [1, N])"
  using assms choose_action_mismatch[of g ag training mkt fps fpp B N t st s] unfolding step_def
  by (auto simp: ebind_eq_Inl no_mismatch_prims no_mismatch_stages)

lemma main_loop_mismatch:
  "main_loop g ag training mkt fps fpp B T N t st = Inl (ShapeMismatch s) \<Longrightarrow> s = ''action''"
proof (induction "T - t" arbitrary: t st)
  case 0
  then show ?case by (subst (asm) main_loop.simps) simp
next
  case (Suc k)
  then have lt: "t < T" by simp
  from Suc.prems lt have
    "step g ag training mkt fps fpp B N t st = Inl (ShapeMismatch s) \<or>
     (\<exists>st1. main_loop g ag training mkt fps fpp B T N (Suc t) st1 = Inl (ShapeMismatch s))"
    by (subst (asm) main_loop.simps) (auto simp: ebind_eq_Inl)
  then show ?case
  proof
    assume "step g ag training mkt fps fpp B N t st = Inl (ShapeMismatch s)"
    then show ?thesis using step_mismatch by blast
  next
    assume "\<exists>st1. main_loop g ag training mkt fps fpp B T N (Suc t) st1 = Inl (ShapeMismatch s)"
    then obtain st1 where "main_loop g ag training mkt fps fpp B T N (Suc t) st1 = Inl (ShapeMismatch s)"
      by blast
    moreover have "k = T - Suc t" using Suc.hyps(2) by simp
    ultimately show ?thesis using Suc.hyps(1) by blast
  qed
qed

subsection \<open>The payoff\<close>

lemma step_payoff_irrelevant:
  "step g ag training (mkt\<lparr>payoff := p\<rparr>) fps fpp B N t st = step g ag training mkt fps fpp B N t st"
  by (simp add: step_def choose_action_def trade_def case_prod_beta cong: if_cong)

lemma main_loop_payoff_irrelevant:
  "main_loop g ag training (mkt\<lparr>payoff := p\<rparr>) fps fpp B T N t st =
   main_loop g ag training mkt fps fpp B T N t st"
proof (induction "T - t" arbitrary: t st)
  case 0
  then show ?case
    using main_loop.simps[of g ag training "mkt\<lparr>payoff := p\<rparr>" fps fpp B T N t st]
      main_loop.simps[of g ag training mkt fps fpp B T N t st]
    by simp
next
  case (Suc k)
  then have "k = T - Suc t" by simp
  then have "main_loop g ag training (mkt\<lparr>payoff := p\<rparr>) fps fpp B T N (Suc t) =
             main_loop g ag training mkt fps fpp B T N (Suc t)"
    using Suc.hyps(1) by blast
  then show ?case
    using main_loop.simps[of g ag training "mkt\<lparr>payoff := p\<rparr>" fps fpp B T N t st]
      main_loop.simps[of g ag training mkt fps fpp B T N t st]
    by (simp add: step_payoff_irrelevant)
qed

lemma call_flat_payoff:
  assumes h: "shape (hedges (market d)) = [B, T, N]"
    and p: "shape (payoff (market d)) = [B, 1]" and wf: "wf_tensor (payoff (market d))"
  shows "call g d training =
         call g (d\<lparr>market := (market d)\<lparr>payoff := \<lparr>shape = [B], vals = vals (payoff (market d))\<rparr>\<rparr>\<rparr>) training"
proof -
  let ?p = "\<lparr>shape = [B], vals = vals (payoff (market d))\<rparr>"
  let ?d = "d\<lparr>market := (market d)\<lparr>payoff := ?p\<rparr>\<rparr>"
  have f: "features ?d n = features d n" for n by (simp add: features_def)
  have m: "main_loop g ag training (market ?d) fps fpp B T N t st =
           main_loop g ag training (market d) fps fpp B T N t st" for ag fps fpp t st
    by (simp add: main_loop_payoff_irrelevant)
  show ?thesis
    using h p slice_col0_flat[OF p wf]
    by (simp add: call_def call_body_def Let_def f main_loop_payoff_irrelevant
        cong: if_cong option.case_cong)
qed

lemma call_payoff_mismatch_only:
  assumes c: "call g d training = Inl (ShapeMismatch ''payoff'')"
    and h: "shape (hedges (market d)) = [B, T, N]"
  shows "shape (payoff (market d)) \<noteq> [B] \<and> shape (payoff (market d)) \<noteq> [B, 1]"
proof (rule ccontr)
  assume "\<not> ?thesis"
  then have ok: "shape (payoff (market d)) = [B] \<or> shape (payoff (market d)) = [B, 1]" by blast
  obtain pay where pay: "(if shape (payoff (market d)) = [B, 1] then slice_col0 (payoff (market d))
      else Inr (payoff (market d))) = Inr pay" and sp: "shape pay = [B]"
    using ok by (auto simp: slice_col0_def)
  have ml: "main_loop g ag training mkt fps fpp B T N t st \<noteq> Inl (ShapeMismatch ''payoff'')"
    for ag mkt fps fpp t st
    using main_loop_mismatch[of g ag training mkt fps fpp B T N t st "''payoff''"] by auto
  from c h pay sp show False
    unfolding call_def call_body_def
    by (auto simp: ebind_eq_Inl Let_def case_prod_beta no_mismatch_prims no_mismatch_features
        no_mismatch_stages ml
        split: option.splits if_splits)
qed

lemma call_payoff_mismatch:
  assumes "agent g = Some ag" "utility g = Some ut"
    and "shape (hedges (market d)) = [B, T, N]" "shape (cost (market d)) = [B, T, N]"
      "shape (ubnd_a (market d)) = [B, T, N]" "shape (lbnd_a (market d)) = [B, T, N]"
    and "shape (payoff (market d)) \<noteq> [B]" "shape (payoff (market d)) \<noteq> [B, 1]"
  shows "call g d training = Inl (ShapeMismatch ''payoff'')"
  using assms by (simp add: call_def call_body_def)

text \<open>
  C10.  A payoff of shape \<open>[B, 1]\<close> is flattened to \<open>[B]\<close> before it is validated:
  the call equals the call on the same data with the payoff given in shape \<open>[B]\<close>.
  The fault \<open>ShapeMismatch payoff\<close> is raised only for a payoff whose shape is
  neither \<open>[B]\<close> nor \<open>[B, 1]\<close>, and it is raised for every such payoff once the gym
  is built and the other market fields have their shapes.
\<close>

theorem payoff_column_flattened:
  assumes h: "shape (hedges (market d)) = [B, T, N]"
  shows "(shape (payoff (market d)) = [B, 1] \<and> wf_tensor (payoff (market d)) \<longrightarrow>
            call g d training =
            call g (d\<lparr>market := (market d)\<lparr>payoff := \<lparr>shape = [B], vals = vals (payoff (market d))\<rparr>\<rparr>\<rparr>)
              training) \<and>
         (call g d training = Inl (ShapeMismatch ''payoff'') \<longrightarrow>
            shape (payoff (market d)) \<noteq> [B] \<and> shape (payoff (market d)) \<noteq> [B, 1]) \<and>
         (agent g \<noteq> None \<and> utility g \<noteq> None \<and> shape (cost (market d)) = [B, T, N] \<and>
          shape (ubnd_a (market d)) = [B, T, N] \<and> shape (lbnd_a (market d)) = [B, T, N] \<and>
          shape (payoff (market d)) \<noteq> [B] \<and> shape (payoff (market d)) \<noteq> [B, 1] \<longrightarrow>
            call g d training = Inl (ShapeMismatch ''payoff''))"
  using call_flat_payoff[OF h] call_payoff_mismatch_only[OF _ h] call_payoff_mismatch[OF _ _ h]
  by blast

theorem payoff_column_flattened_witness:
  "wf_tensor (row1 (Fin 7)) \<and>
   call (built_gym debug_gym (row1 (Fin 5))) (data1 (Fin 2) (Fin 3) (Fin (- 1)) (Fin 1) (row1 (Fin 7))) False =
   Inr \<lparr>r_loss = vec1 (Fin (- 13)), r_utility = vec1 (Fin 6), r_utility0 = vec1 (Fin 7),
        r_gains = vec1 (Fin 6), r_payoff = vec1 (Fin 7), r_pnl = vec1 (Fin 2), r_cost = vec1 (Fin 3),
        r_actions = cube1 (Fin 1)\<rparr> \<and>
   call (built_gym debug_gym (row1 (Fin 5))) (data1 (Fin 2) (Fin 3) (Fin (- 1)) (Fin 1) (cube1 (Fin 7))) False =
   Inl (ShapeMismatch ''payoff'')"
proof -
  let ?g = "built_gym debug_gym (row1 (Fin 5))"
  let ?d = "\<lambda>p. data1 (Fin 2) (Fin 3) (Fin (- 1)) (Fin 1) p"
  have h: "shape (hedges (market (?d p))) = [1, 1, 1]" for p by (simp add: ex_defs)
  have w: "wf_tensor (row1 (Fin 7))" "shape (payoff (market (?d (row1 (Fin 7))))) = [1, 1]"
    "wf_tensor (payoff (market (?d (row1 (Fin 7)))))"
    by (simp_all add: ex_defs wf_tensor_def)
  have e: "(?d (row1 (Fin 7)))\<lparr>market := (market (?d (row1 (Fin 7))))
             \<lparr>payoff := \<lparr>shape = [1], vals = vals (payoff (market (?d (row1 (Fin 7)))))\<rparr>\<rparr>\<rparr> =
           ?d (vec1 (Fin 7))"
    by (simp add: ex_defs)
  have 1: "call ?g (?d (row1 (Fin 7))) False = call ?g (?d (vec1 (Fin 7))) False"
    using payoff_column_flattened[OF h, of "row1 (Fin 7)" ?g False] w e by simp
  have c: "agent ?g \<noteq> None" "utility ?g \<noteq> None" "shape (cost (market (?d (cube1 (Fin 7))))) = [1, 1, 1]"
    "shape (ubnd_a (market (?d (cube1 (Fin 7))))) = [1, 1, 1]"
    "shape (lbnd_a (market (?d (cube1 (Fin 7))))) = [1, 1, 1]"
    "shape (payoff (market (?d (cube1 (Fin 7))))) \<noteq> [1]"
    "shape (payoff (market (?d (cube1 (Fin 7))))) \<noteq> [1, 1]"
    by (simp_all add: ex_defs)
  have 2: "call ?g (?d (cube1 (Fin 7))) False = Inl (ShapeMismatch ''payoff'')"
    using payoff_column_flattened[OF h, of "cube1 (Fin 7)" ?g False] c by blast
  show ?thesis using w(1) 1 2 call_example by simp
qed

subsection \<open>The policy's action\<close>













section \<open>The feature assembler on per-path features\<close>

text \<open>
  The comprehension over \<^verbatim>\<open>features_per_path_i\<close> visits the keys of the dictionary
  and hands each key, a string, to \<^verbatim>\<open>tf_make_dim\<close>.  With one per-path feature or
  more the assembler fails; whenever it returns, there was no per-path feature and its
  second component is the empty set.
\<close>

lemma emap_all_Inl: "xs \<noteq> [] \<Longrightarrow> (\<And>x. f x = Inl e) \<Longrightarrow> emap f xs = Inl e"
  by (cases xs) simp_all

lemma features_per_path_nonempty:
  assumes "per_path d \<noteq> []"
  shows "isl (features d nSteps)"
proof (cases "emap (per_step_feature nSteps) (per_step d)")
  case (Inl e)
  then show ?thesis by (simp add: features_def)
next
  case (Inr fps)
  have "emap (\<lambda>k. tf_make_dim (PyStr k) 2) (map fst (per_path d)) = Inl (AttributeError ''shape'')"
    using assms by (intro emap_all_Inl) (simp_all add: tf_make_dim_def)
  then show ?thesis using Inr by (simp add: features_def)
qed

lemma features_per_path_empty_set:
  assumes "features d nSteps = Inr (fps, fpp)"
  shows "fpp = [] \<and> per_path d = []"
proof -
  have "per_path d = []" using features_per_path_nonempty[of d nSteps] assms by (cases "per_path d") auto
  then show ?thesis using assms by (auto simp: features_def ebind_eq_Inr)
qed

text \<open>
  C6.  The claim is that for every non-empty \<open>per_path\<close> mapping the assembler returns
  the mapping of the same feature names to the tensors normalized to rank 2.  On the
  data of the example batch with the one per-path feature \<open>vol\<close>, of shape \<open>[1, 1]\<close>,
  the assembler returns no mapping: it fails, and the call fails with it.  With no
  per-path feature it returns the two empty collections.
\<close>

theorem per_path_features_fail:
  "features ((data1 (Fin 2) (Fin 3) (Fin (- 1)) (Fin 1) (vec1 (Fin 7)))\<lparr>per_path := [(''vol'', row1 (Fin 1))]\<rparr>) 1 =
     Inl (AttributeError ''shape'') \<and>
   call (built_gym debug_gym (row1 (Fin 5)))
     ((data1 (Fin 2) (Fin 3) (Fin (- 1)) (Fin 1) (vec1 (Fin 7)))\<lparr>per_path := [(''vol'', row1 (Fin 1))]\<rparr>) False =
     Inl (AttributeError ''shape'') \<and>
   features (data1 (Fin 2) (Fin 3) (Fin (- 1)) (Fin 1) (vec1 (Fin 7))) 1 = Inr ([], [])"
  by (simp add: call_ev clip_ev ex_defs tf_make_dim_def)

end
